theory Spec2Isabelle
  imports Complex_Main
begin

unbundle bit_operations_syntax

section \<open>Python values and errors\<close>

text \<open>
  The numerical code of \<^verbatim>\<open>edrs/echelle/background.py\<close> works on numpy arrays of
  floats and integers. Floats are idealised as \<^typ>\<open>real\<close> (no rounding, no NaN or
  infinity); Python integers are \<^typ>\<open>int\<close>. One-dimensional arrays are lists,
  a fitted surface is a list of rows, an input image is a pixel function. Every exception the code can raise is a value of
  \<open>py_error\<close>; a fallible computation returns \<open>py_error + 'a\<close>.
\<close>

datatype py_error =
  NameError | IndexError | ValueError | KeyError | ZeroDivisionError
  | AttributeError | TypeError

section \<open>Sigma-clipped surface fit: \<^verbatim>\<open>fit_background\<close>\<close>

text \<open>Boolean-mask indexing \<^verbatim>\<open>a[mask]\<close> and \<^verbatim>\<open>mask.sum()\<close>.\<close>

definition select :: "bool list \<Rightarrow> 'a list \<Rightarrow> 'a list" where
  "select msk xs = map snd (filter fst (zip msk xs))"

definition count_true :: "bool list \<Rightarrow> nat" where
  "count_true msk = length (filter (\<lambda>b. b) msk)"

text \<open>\<^verbatim>\<open>ndarray.std()\<close>: the population standard deviation (\<^verbatim>\<open>ddof=0\<close>).\<close>

definition mean :: "real list \<Rightarrow> real" where
  "mean rs = sum_list rs / real (length rs)"

definition std :: "real list \<Rightarrow> real" where
  "std rs = sqrt (mean (map (\<lambda>r. (r - mean rs)\<^sup>2) rs))"

text \<open>
  \<^verbatim>\<open>polyfit2d\<close> and \<^verbatim>\<open>polyval2d\<close> live in \<^verbatim>\<open>utils/regression.py\<close>, a module that
  is not modelled. They are parameters of the model: \<open>pf xs ys zs xorder yorder\<close>
  is the least-squares fit (which may raise), \<open>pv x y coeff\<close> evaluates the fitted
  polynomial at one point (numpy applies it element-wise).

  One pass through the body of the \<^verbatim>\<open>for niter in range(maxiter)\<close> loop, up to the
  computation of \<^verbatim>\<open>new_mask\<close>. Boolean indexing with a mask of another length
  raises IndexError.
\<close>

definition fit_round ::
  "(real list \<Rightarrow> real list \<Rightarrow> real list \<Rightarrow> int \<Rightarrow> int \<Rightarrow> py_error + 'c) \<Rightarrow>
   (real \<Rightarrow> real \<Rightarrow> 'c \<Rightarrow> real) \<Rightarrow>
   real list \<Rightarrow> real list \<Rightarrow> real list \<Rightarrow> int \<Rightarrow> int \<Rightarrow> real \<Rightarrow> real \<Rightarrow>
   bool list \<Rightarrow> py_error + ('c \<times> real \<times> bool list)" where
  "fit_round pf pv xfit yfit zfit xorder yorder upper_clip lower_clip msk =
    (if length xfit \<noteq> length msk \<or> length yfit \<noteq> length msk
          \<or> length zfit \<noteq> length msk then Inl IndexError
     else case pf (select msk xfit) (select msk yfit) (select msk zfit) xorder yorder of
        Inl e \<Rightarrow> Inl e
      | Inr coeff \<Rightarrow>
          (let values = map2 (\<lambda>x y. pv x y coeff) xfit yfit;
               residuals = map2 (\<lambda>z v. z - v) zfit values;
               sigma = std (select msk residuals);
               m1 = map (\<lambda>r. r < upper_clip * sigma) residuals;
               m2 = map (\<lambda>r. r > - lower_clip * sigma) residuals;
               new_mask = map2 (\<lambda>a b. a \<and> b) m1 m2
           in Inr (coeff, sigma, new_mask)))"

text \<open>
  The loop itself. The state is the last coefficient object (unbound before the first
  pass), the working mask and the list \<^verbatim>\<open>_messages\<close>; every pass appends one
  entry \<open>(niter, sigma, mask.sum(), new_mask.sum())\<close>. The first argument after the clip
  thresholds counts the passes that remain.
\<close>

type_synonym message = "nat \<times> real \<times> nat \<times> nat"

fun fit_loop ::
  "(real list \<Rightarrow> real list \<Rightarrow> real list \<Rightarrow> int \<Rightarrow> int \<Rightarrow> py_error + 'c) \<Rightarrow>
   (real \<Rightarrow> real \<Rightarrow> 'c \<Rightarrow> real) \<Rightarrow>
   real list \<Rightarrow> real list \<Rightarrow> real list \<Rightarrow> int \<Rightarrow> int \<Rightarrow> real \<Rightarrow> real \<Rightarrow>
   nat \<Rightarrow> nat \<Rightarrow> 'c option \<Rightarrow> bool list \<Rightarrow> message list \<Rightarrow>
   py_error + ('c option \<times> bool list \<times> message list)" where
  "fit_loop pf pv xfit yfit zfit xorder yorder upper_clip lower_clip 0 niter coeff msk msgs =
     Inr (coeff, msk, msgs)"
| "fit_loop pf pv xfit yfit zfit xorder yorder upper_clip lower_clip (Suc k) niter coeff msk msgs =
     (case fit_round pf pv xfit yfit zfit xorder yorder upper_clip lower_clip msk of
        Inl e \<Rightarrow> Inl e
      | Inr (c, sigma, new_mask) \<Rightarrow>
          (let msgs' = msgs @ [(niter, sigma, count_true msk, count_true new_mask)]
           in if count_true new_mask = count_true msk then Inr (Some c, msk, msgs')
              else fit_loop pf pv xfit yfit zfit xorder yorder upper_clip lower_clip
                     k (Suc niter) (Some c) new_mask msgs'))"

text \<open>
  \<^verbatim>\<open>polyval2d(xx/w, yy/h, coeff)\<close> over \<^verbatim>\<open>np.mgrid[:h:, :w:]\<close>: the surface on every
  pixel, row by row.
\<close>

definition eval_surface ::
  "(real \<Rightarrow> real \<Rightarrow> 'c \<Rightarrow> real) \<Rightarrow> nat \<times> nat \<Rightarrow> 'c \<Rightarrow> real list list" where
  "eval_surface pv shape coeff =
     (case shape of (h, w) \<Rightarrow>
        map (\<lambda>y. map (\<lambda>x. pv (real x / real w) (real y / real h) coeff) [0..<w]) [0..<h])"

text \<open>
  \<^verbatim>\<open>fit_background\<close> with the initial mask as an argument; the source starts from
  \<^verbatim>\<open>np.ones_like(zfit, dtype=np.bool)\<close>. With \<^verbatim>\<open>maxiter <= 0\<close> the loop body never runs
  and \<^verbatim>\<open>coeff\<close> is unbound at the final \<^verbatim>\<open>polyval2d\<close>. The result is the pair the
  source returns together with the messages it hands to the logger.
\<close>

definition fit_background_from ::
  "(real list \<Rightarrow> real list \<Rightarrow> real list \<Rightarrow> int \<Rightarrow> int \<Rightarrow> py_error + 'c) \<Rightarrow>
   (real \<Rightarrow> real \<Rightarrow> 'c \<Rightarrow> real) \<Rightarrow>
   nat \<times> nat \<Rightarrow> int list \<Rightarrow> int list \<Rightarrow> real list \<Rightarrow> int \<Rightarrow> int \<Rightarrow> int \<Rightarrow> real \<Rightarrow> real \<Rightarrow>
   bool list \<Rightarrow> py_error + (real list list \<times> bool list \<times> message list)" where
  "fit_background_from pf pv shape xnodes ynodes znodes xorder yorder maxiter
       upper_clip lower_clip msk0 =
     (case shape of (h, w) \<Rightarrow>
       (let xfit = map (\<lambda>x. real_of_int x / real w) xnodes;
            yfit = map (\<lambda>y. real_of_int y / real h) ynodes;
            zfit = znodes
        in case fit_loop pf pv xfit yfit zfit xorder yorder upper_clip lower_clip
                  (nat maxiter) 0 None msk0 [] of
             Inl e \<Rightarrow> Inl e
           | Inr (None, msk, msgs) \<Rightarrow> Inl NameError
           | Inr (Some coeff, msk, msgs) \<Rightarrow>
               Inr (eval_surface pv (h, w) coeff, msk, msgs)))"

definition fit_background ::
  "(real list \<Rightarrow> real list \<Rightarrow> real list \<Rightarrow> int \<Rightarrow> int \<Rightarrow> py_error + 'c) \<Rightarrow>
   (real \<Rightarrow> real \<Rightarrow> 'c \<Rightarrow> real) \<Rightarrow>
   nat \<times> nat \<Rightarrow> int list \<Rightarrow> int list \<Rightarrow> real list \<Rightarrow> int \<Rightarrow> int \<Rightarrow> int \<Rightarrow> real \<Rightarrow> real \<Rightarrow>
   py_error + (real list list \<times> bool list \<times> message list)" where
  "fit_background pf pv shape xnodes ynodes znodes xorder yorder maxiter
       upper_clip lower_clip =
     fit_background_from pf pv shape xnodes ynodes znodes xorder yorder maxiter
       upper_clip lower_clip (replicate (length znodes) True)"

text \<open>
  The least-squares solution for \<^verbatim>\<open>xorder = yorder = 0\<close> is the constant surface at
  the mean of the fitted intensities; it instantiates the two parameters in closed
  examples. On zero points the mean is \<open>0 / 0\<close>, which is \<open>0\<close> in HOL; the examples do not
  depend on that value.
\<close>

definition polyfit2d_const ::
  "real list \<Rightarrow> real list \<Rightarrow> real list \<Rightarrow> int \<Rightarrow> int \<Rightarrow> py_error + real" where
  "polyfit2d_const xs ys zs xorder yorder = Inr (mean zs)"

definition polyval2d_const :: "real \<Rightarrow> real \<Rightarrow> real \<Rightarrow> real" where
  "polyval2d_const x y coeff = coeff"



text \<open>
  What a caller and the log reader can observe of a fit without looking at the values:
  the returned accept mask and, for every pass, its number, \<^verbatim>\<open>N\<close> and \<^verbatim>\<open>N(new)\<close>.
\<close>

definition accept_log ::
  "py_error + (real list list \<times> bool list \<times> message list) \<Rightarrow>
   (bool list \<times> (nat \<times> nat \<times> nat) list) option" where
  "accept_log r =
     (case r of
        Inl e \<Rightarrow> None
      | Inr (bg, m, msgs) \<Rightarrow> Some (m, map (\<lambda>(niter, sigma, n, n'). (niter, n, n')) msgs))"

subsection \<open>The iteration as the specification words it\<close>

text \<open>
  The specification describes one round over the set of accepted nodes: least squares
  over the accepted nodes, residuals of all nodes, the standard deviation of the
  residuals of the accepted nodes, and the new accepted set
  \<open>- lower_clip * sigma < residual < upper_clip * sigma\<close>. The definitions below follow
  these words node by node (by index), with the stopping test of the source: the number
  of accepted nodes is compared, not the set itself.
\<close>

definition spec_accepted :: "bool list \<Rightarrow> nat list" where
  "spec_accepted W = filter (\<lambda>i. W ! i) [0..<length W]"

definition spec_residual ::
  "(real \<Rightarrow> real \<Rightarrow> 'c \<Rightarrow> real) \<Rightarrow> real list \<Rightarrow> real list \<Rightarrow> real list \<Rightarrow> 'c \<Rightarrow> nat \<Rightarrow> real" where
  "spec_residual pv xfit yfit zfit c i = zfit ! i - pv (xfit ! i) (yfit ! i) c"

definition spec_round ::
  "(real list \<Rightarrow> real list \<Rightarrow> real list \<Rightarrow> int \<Rightarrow> int \<Rightarrow> py_error + 'c) \<Rightarrow>
   (real \<Rightarrow> real \<Rightarrow> 'c \<Rightarrow> real) \<Rightarrow>
   real list \<Rightarrow> real list \<Rightarrow> real list \<Rightarrow> int \<Rightarrow> int \<Rightarrow> real \<Rightarrow> real \<Rightarrow>
   bool list \<Rightarrow> py_error + ('c \<times> bool list)" where
  "spec_round pf pv xfit yfit zfit xorder yorder upper_clip lower_clip W =
     (case pf (map (\<lambda>i. xfit ! i) (spec_accepted W)) (map (\<lambda>i. yfit ! i) (spec_accepted W))
              (map (\<lambda>i. zfit ! i) (spec_accepted W)) xorder yorder of
        Inl e \<Rightarrow> Inl e
      | Inr c \<Rightarrow>
          (let sigma = std (map (spec_residual pv xfit yfit zfit c) (spec_accepted W))
           in Inr (c, map (\<lambda>i. - lower_clip * sigma < spec_residual pv xfit yfit zfit c i
                              \<and> spec_residual pv xfit yfit zfit c i < upper_clip * sigma)
                         [0..<length zfit])))"

text \<open>
  \<open>spec_iterate \<dots> more W\<close> performs one round on the working set \<open>W\<close> and at most
  \<open>more\<close> further rounds: it stops early when the round accepts as many nodes as \<open>W\<close>
  holds (keeping \<open>W\<close>), otherwise the new mask is the working set of the next round.
\<close>

fun spec_iterate ::
  "(real list \<Rightarrow> real list \<Rightarrow> real list \<Rightarrow> int \<Rightarrow> int \<Rightarrow> py_error + 'c) \<Rightarrow>
   (real \<Rightarrow> real \<Rightarrow> 'c \<Rightarrow> real) \<Rightarrow>
   real list \<Rightarrow> real list \<Rightarrow> real list \<Rightarrow> int \<Rightarrow> int \<Rightarrow> real \<Rightarrow> real \<Rightarrow>
   nat \<Rightarrow> bool list \<Rightarrow> py_error + ('c \<times> bool list)" where
  "spec_iterate pf pv xfit yfit zfit xorder yorder upper_clip lower_clip 0 W =
     (case spec_round pf pv xfit yfit zfit xorder yorder upper_clip lower_clip W of
        Inl e \<Rightarrow> Inl e
      | Inr (c, W') \<Rightarrow> if count_true W' = count_true W then Inr (c, W) else Inr (c, W'))"
| "spec_iterate pf pv xfit yfit zfit xorder yorder upper_clip lower_clip (Suc more) W =
     (case spec_round pf pv xfit yfit zfit xorder yorder upper_clip lower_clip W of
        Inl e \<Rightarrow> Inl e
      | Inr (c, W') \<Rightarrow>
          if count_true W' = count_true W then Inr (c, W)
          else spec_iterate pf pv xfit yfit zfit xorder yorder upper_clip lower_clip more W')"

definition spec_fit_background ::
  "(real list \<Rightarrow> real list \<Rightarrow> real list \<Rightarrow> int \<Rightarrow> int \<Rightarrow> py_error + 'c) \<Rightarrow>
   (real \<Rightarrow> real \<Rightarrow> 'c \<Rightarrow> real) \<Rightarrow>
   nat \<times> nat \<Rightarrow> int list \<Rightarrow> int list \<Rightarrow> real list \<Rightarrow> int \<Rightarrow> int \<Rightarrow> int \<Rightarrow> real \<Rightarrow> real \<Rightarrow>
   py_error + (real list list \<times> bool list)" where
  "spec_fit_background pf pv shape xnodes ynodes znodes xorder yorder maxiter
       upper_clip lower_clip =
     (case spec_iterate pf pv
             (map (\<lambda>x. real_of_int x / real (snd shape)) xnodes)
             (map (\<lambda>y. real_of_int y / real (fst shape)) ynodes)
             znodes xorder yorder upper_clip lower_clip
             (nat maxiter - 1) (replicate (length znodes) True) of
        Inl e \<Rightarrow> Inl e
      | Inr (c, W) \<Rightarrow> Inr (eval_surface pv shape c, W))"


section \<open>Node sampling and background correction: \<^verbatim>\<open>correct_background\<close>\<close>

text \<open>
  An image is its shape \<open>(h, w)\<close> and a pixel function \<open>row \<Rightarrow> column \<Rightarrow> value\<close>; the
  code only reads pixels inside the shape.
\<close>

text \<open>\<^verbatim>\<open>int(x)\<close> on a float truncates towards zero.\<close>

definition py_int :: "real \<Rightarrow> int" where
  "py_int r = (if r < 0 then \<lceil>r\<rceil> else \<lfloor>r\<rfloor>)"

text \<open>\<^verbatim>\<open>ndarray.argmin()\<close>: the index of the first occurrence of the minimum.\<close>

fun argmin :: "real list \<Rightarrow> nat" where
  "argmin [] = 0"
| "argmin (x # xs) = (if xs = [] \<or> x \<le> xs ! argmin xs then 0 else Suc (argmin xs))"

text \<open>
  \<^verbatim>\<open>np.polyval(coeff, x)\<close>: Horner's scheme over the coefficients, highest power
  first.
\<close>

definition polyval :: "real list \<Rightarrow> real \<Rightarrow> real" where
  "polyval p x = foldl (\<lambda>y c. y * x + c) 0 p"

text \<open>\<^verbatim>\<open>min(h-1, max(0, int(y)))\<close>.\<close>

definition clamp_row :: "nat \<Rightarrow> real \<Rightarrow> int" where
  "clamp_row h y = min (int h - 1) (max 0 (py_int y))"

text \<open>
  The body of the innermost loop for a channel that has the aperture: \<open>count_channel\<close>
  is the value after the increment, \<open>this_newy\<close> the order centre at the column, the
  state is \<open>(prev_newy, inter_aper)\<close>. \<open>xsection\<close> is the column \<^verbatim>\<open>meddata[:,x]\<close>.
  The product \<^verbatim>\<open>scan_step*0.6\<close> is taken over the reals.
\<close>

definition scan_center ::
  "nat \<Rightarrow> int \<Rightarrow> (nat \<Rightarrow> real) \<Rightarrow> nat \<Rightarrow> real \<Rightarrow> real option \<times> int list \<Rightarrow>
   real option \<times> int list" where
  "scan_center h scan_step xsection count_channel this_newy st =
     (case st of (prev_newy, inter_aper) \<Rightarrow>
        (Some this_newy,
         (case prev_newy of
            None \<Rightarrow> inter_aper
          | Some prev \<Rightarrow>
              if count_channel = 1 then
                (let mid_newy = py_int ((prev + this_newy) / 2);
                     i1 = clamp_row h prev;
                     i2 = clamp_row h this_newy
                 in if inter_aper = []
                       \<or> \<bar>real_of_int (mid_newy - last inter_aper)\<bar> > real_of_int scan_step * 0.6
                    then (if i2 - i1 > 0
                          then inter_aper @ [i1 + int (argmin (map xsection [nat i1..<nat i2]))]
                          else inter_aper)
                    else inter_aper)
              else inter_aper)))"

text \<open>
  An \<^verbatim>\<open>ApertureSet\<close> maps aperture numbers to apertures, of which only
  \<^verbatim>\<open>position(x)\<close> is used; \<^verbatim>\<open>apertureset_lst\<close> maps channel names to aperture sets.
  Dictionaries are association lists read with \<^const>\<open>map_of\<close>; a missing channel
  raises KeyError.
\<close>

type_synonym aperture_set = "(int \<times> (nat \<Rightarrow> real)) list"

fun scan_channels ::
  "(string \<times> aperture_set) list \<Rightarrow> nat \<Rightarrow> int \<Rightarrow> (nat \<Rightarrow> real) \<Rightarrow> nat \<Rightarrow> int \<Rightarrow>
   string list \<Rightarrow> nat \<Rightarrow> real option \<times> int list \<Rightarrow> py_error + (real option \<times> int list)" where
  "scan_channels apertureset_lst h scan_step xsection x aper [] count_channel st = Inr st"
| "scan_channels apertureset_lst h scan_step xsection x aper (channel # rest) count_channel st =
     (case map_of apertureset_lst channel of
        None \<Rightarrow> Inl KeyError
      | Some aperset \<Rightarrow>
          (case map_of aperset aper of
             None \<Rightarrow> scan_channels apertureset_lst h scan_step xsection x aper rest count_channel st
           | Some position \<Rightarrow>
               scan_channels apertureset_lst h scan_step xsection x aper rest (Suc count_channel)
                 (scan_center h scan_step xsection (Suc count_channel) (position x) st)))"

text \<open>\<^verbatim>\<open>for aper in range(min_aper, max_aper+1)\<close>, with \<^verbatim>\<open>count_channel = 0\<close> for each.\<close>

fun scan_apertures ::
  "(string \<times> aperture_set) list \<Rightarrow> nat \<Rightarrow> int \<Rightarrow> (nat \<Rightarrow> real) \<Rightarrow> nat \<Rightarrow> string list \<Rightarrow>
   int list \<Rightarrow> real option \<times> int list \<Rightarrow> py_error + (real option \<times> int list)" where
  "scan_apertures apertureset_lst h scan_step xsection x channels [] st = Inr st"
| "scan_apertures apertureset_lst h scan_step xsection x channels (aper # rest) st =
     (case scan_channels apertureset_lst h scan_step xsection x aper channels 0 st of
        Inl e \<Rightarrow> Inl e
      | Inr st' \<Rightarrow> scan_apertures apertureset_lst h scan_step xsection x channels rest st')"

definition find_inter_aper ::
  "(string \<times> aperture_set) list \<Rightarrow> nat \<Rightarrow> int \<Rightarrow> (nat \<Rightarrow> real) \<Rightarrow> nat \<Rightarrow> string list \<Rightarrow>
   int \<Rightarrow> int \<Rightarrow> py_error + int list" where
  "find_inter_aper apertureset_lst h scan_step xsection x channels min_aper max_aper =
     (case scan_apertures apertureset_lst h scan_step xsection x channels [min_aper..max_aper]
             (None, []) of
        Inl e \<Rightarrow> Inl e
      | Inr (prev_newy, inter_aper) \<Rightarrow> Inr inter_aper)"

text \<open>
  The two extension walks. Nothing bounds the number of steps, so they are partial:
  \<open>None\<close> stands for a walk that never ends.
  \<^verbatim>\<open>
  while(new_y<h-1):
      ii += 1
      new_y = int(np.polyval(coeff,ii))
      inter_aper = np.append(inter_aper,new_y)
  \<close>
\<close>

partial_function (option) extend_up ::
  "real list \<Rightarrow> nat \<Rightarrow> int \<Rightarrow> int \<Rightarrow> int list \<Rightarrow> int list option" where
  "extend_up coeff h ii new_y inter_aper =
     (if new_y < int h - 1
      then extend_up coeff h (ii + 1) (py_int (polyval coeff (real_of_int (ii + 1))))
             (inter_aper @ [py_int (polyval coeff (real_of_int (ii + 1)))])
      else Some inter_aper)"

text \<open>
  \<^verbatim>\<open>
  while(new_y>0):
      ii -= 1
      new_y = int(np.polyval(coeff,ii))
      inter_aper = np.insert(inter_aper,0,new_y)
  \<close>
\<close>

partial_function (option) extend_down ::
  "real list \<Rightarrow> int \<Rightarrow> int \<Rightarrow> int list \<Rightarrow> int list option" where
  "extend_down coeff ii new_y inter_aper =
     (if new_y > 0
      then extend_down coeff (ii - 1) (py_int (polyval coeff (real_of_int (ii - 1))))
             (py_int (polyval coeff (real_of_int (ii - 1))) # inter_aper)
      else Some inter_aper)"

declare extend_up.simps [code]
declare extend_down.simps [code]

text \<open>
  The \<^verbatim>\<open>if extend:\<close> block. \<^verbatim>\<open>np.polyfit(np.arange(inter_aper.size), inter_aper, deg=3)\<close>
  is numpy's; it is the parameter \<open>polyfit\<close>, which returns the four coefficients or
  raises (numpy raises TypeError on an empty vector).
\<close>

definition extend_grid ::
  "(int list \<Rightarrow> py_error + real list) \<Rightarrow> nat \<Rightarrow> int list \<Rightarrow> (py_error + int list) option" where
  "extend_grid polyfit h inter_aper =
     (case polyfit inter_aper of
        Inl e \<Rightarrow> Some (Inl e)
      | Inr coeff \<Rightarrow>
          if inter_aper = [] then Some (Inl IndexError)
          else (case extend_up coeff h (int (length inter_aper) - 1) (last inter_aper) inter_aper of
                  None \<Rightarrow> None
                | Some up \<Rightarrow>
                    (case extend_down coeff 0 (hd up) up of
                       None \<Rightarrow> None
                     | Some both \<Rightarrow> Some (Inr both))))"

text \<open>\<^verbatim>\<open>inter_aper[np.nonzero(m1*m2)[0]]\<close> with \<^verbatim>\<open>m1 = inter_aper > 0\<close>, \<^verbatim>\<open>m2 = inter_aper < h-1\<close>.\<close>

definition remove_outside :: "nat \<Rightarrow> int list \<Rightarrow> int list" where
  "remove_outside h inter_aper = filter (\<lambda>y. y > 0 \<and> y < int h - 1) inter_aper"

text \<open>
  \<^verbatim>\<open>tmp = np.insert(inter_aper,0,0.); mask = np.diff(tmp)>0\<close>: an entry is kept when it
  exceeds the entry before it (the first one when it exceeds 0).
\<close>

definition remove_backward :: "int list \<Rightarrow> int list" where
  "remove_backward inter_aper =
     map snd (filter (\<lambda>(p, y). y - p > 0) (zip (0 # inter_aper) inter_aper))"

text \<open>The node rows of one scanned column.\<close>

definition column_rows ::
  "(int list \<Rightarrow> py_error + real list) \<Rightarrow> (string \<times> aperture_set) list \<Rightarrow> nat \<Rightarrow> int \<Rightarrow>
   (nat \<Rightarrow> real) \<Rightarrow> nat \<Rightarrow> string list \<Rightarrow> int \<Rightarrow> int \<Rightarrow> bool \<Rightarrow> (py_error + int list) option" where
  "column_rows polyfit apertureset_lst h scan_step xsection x channels min_aper max_aper extend =
     (case find_inter_aper apertureset_lst h scan_step xsection x channels min_aper max_aper of
        Inl e \<Rightarrow> Some (Inl e)
      | Inr inter_aper \<Rightarrow>
          (case (if extend then extend_grid polyfit h inter_aper else Some (Inr inter_aper)) of
             None \<Rightarrow> None
           | Some (Inl e) \<Rightarrow> Some (Inl e)
           | Some (Inr extended) \<Rightarrow> Some (Inr (remove_backward (remove_outside h extended)))))"


text \<open>
  \<^verbatim>\<open>x_lst = np.arange(0, w-1, scan_step)\<close>, then the last column is appended when
  \<^verbatim>\<open>x_lst[-1] != w-1\<close>. A zero step raises ZeroDivisionError, an empty range raises
  IndexError at \<^verbatim>\<open>x_lst[-1]\<close>.
\<close>

definition scan_columns :: "nat \<Rightarrow> int \<Rightarrow> py_error + nat list" where
  "scan_columns w scan_step =
     (if scan_step = 0 then Inl ZeroDivisionError
      else (let x_lst = (if scan_step > 0
                         then map (\<lambda>k. k * nat scan_step)
                                [0..<((w - 1) + nat scan_step - 1) div nat scan_step]
                         else [])
            in if x_lst = [] then Inl IndexError
               else if last x_lst \<noteq> w - 1 then Inr (x_lst @ [w - 1]) else Inr x_lst))"

text \<open>
  \<^verbatim>\<open>min([min(apertureset_lst[ch].keys()) for ch in channels])\<close> and the same with
  \<^verbatim>\<open>max\<close>: a missing channel raises KeyError, an empty argument of \<^verbatim>\<open>min\<close> raises
  ValueError.
\<close>

fun aperture_keys :: "(string \<times> aperture_set) list \<Rightarrow> string list \<Rightarrow> py_error + int list list" where
  "aperture_keys apertureset_lst [] = Inr []"
| "aperture_keys apertureset_lst (ch # channels) =
     (case map_of apertureset_lst ch of
        None \<Rightarrow> Inl KeyError
      | Some aperset \<Rightarrow>
          if aperset = [] then Inl ValueError
          else (case aperture_keys apertureset_lst channels of
                  Inl e \<Rightarrow> Inl e
                | Inr ks \<Rightarrow> Inr (map fst aperset # ks)))"

definition aperture_range ::
  "(string \<times> aperture_set) list \<Rightarrow> string list \<Rightarrow> py_error + (int \<times> int)" where
  "aperture_range apertureset_lst channels =
     (case aperture_keys apertureset_lst channels of
        Inl e \<Rightarrow> Inl e
      | Inr ks \<Rightarrow>
          if ks = [] then Inl ValueError
          else Inr (Min (set (map (\<lambda>k. Min (set k)) ks)), Max (set (map (\<lambda>k. Max (set k)) ks))))"

text \<open>
  The loop \<^verbatim>\<open>for x in x_lst\<close>: the rows of each column that are not masked are appended
  to \<^verbatim>\<open>xnodes\<close>, \<^verbatim>\<open>ynodes\<close>, \<^verbatim>\<open>znodes\<close>.
\<close>

fun sample_columns ::
  "(int list \<Rightarrow> py_error + real list) \<Rightarrow> (string \<times> aperture_set) list \<Rightarrow> nat \<Rightarrow> int \<Rightarrow>
   (nat \<Rightarrow> nat \<Rightarrow> real) \<Rightarrow> (nat \<Rightarrow> nat \<Rightarrow> bool) \<Rightarrow> string list \<Rightarrow> int \<Rightarrow> int \<Rightarrow> bool \<Rightarrow>
   nat list \<Rightarrow> int list \<times> int list \<times> real list \<Rightarrow>
   (py_error + (int list \<times> int list \<times> real list)) option" where
  "sample_columns polyfit apertureset_lst h scan_step meddata data_mask channels min_aper max_aper
       extend [] nodes = Some (Inr nodes)"
| "sample_columns polyfit apertureset_lst h scan_step meddata data_mask channels min_aper max_aper
       extend (x # x_lst) nodes =
     (case column_rows polyfit apertureset_lst h scan_step (\<lambda>y. meddata y x) x channels
             min_aper max_aper extend of
        None \<Rightarrow> None
      | Some (Inl e) \<Rightarrow> Some (Inl e)
      | Some (Inr inter_aper) \<Rightarrow>
          (case nodes of (xnodes, ynodes, znodes) \<Rightarrow>
             (let kept = filter (\<lambda>y. \<not> data_mask (nat y) x) inter_aper
              in sample_columns polyfit apertureset_lst h scan_step meddata data_mask channels
                   min_aper max_aper extend x_lst
                   (xnodes @ map (\<lambda>y. int x) kept, ynodes @ kept,
                    znodes @ map (\<lambda>y. meddata (nat y) x) kept))))"

text \<open>
  The sampling part of \<^verbatim>\<open>correct_background\<close>, up to the three node arrays.
  \<^verbatim>\<open>median_filter\<close> is scipy's and a parameter; \<^verbatim>\<open>np.int16(mask) & block_mask > 0\<close> is
  taken on integers within the range of \<^verbatim>\<open>int16\<close>.
\<close>

definition sample_nodes ::
  "((nat \<Rightarrow> nat \<Rightarrow> real) \<Rightarrow> (nat \<Rightarrow> nat \<Rightarrow> real)) \<Rightarrow> (int list \<Rightarrow> py_error + real list) \<Rightarrow>
   nat \<times> nat \<Rightarrow> (nat \<Rightarrow> nat \<Rightarrow> real) \<Rightarrow> (nat \<Rightarrow> nat \<Rightarrow> int) \<Rightarrow> string list \<Rightarrow>
   (string \<times> aperture_set) list \<Rightarrow> int \<Rightarrow> int \<Rightarrow> bool \<Rightarrow>
   (py_error + (int list \<times> int list \<times> real list)) option" where
  "sample_nodes median_filter polyfit shape data msk channels apertureset_lst block_mask
       scan_step extend =
     (case shape of (h, w) \<Rightarrow>
        (let data_mask = (\<lambda>y x. (msk y x AND block_mask) > 0);
             meddata = median_filter data
         in case aperture_range apertureset_lst channels of
              Inl e \<Rightarrow> Some (Inl e)
            | Inr (min_aper, max_aper) \<Rightarrow>
                (case scan_columns w scan_step of
                   Inl e \<Rightarrow> Some (Inl e)
                 | Inr x_lst \<Rightarrow>
                     sample_columns polyfit apertureset_lst h scan_step meddata data_mask
                       channels min_aper max_aper extend x_lst ([], [], []))))"

text \<open>
  \<^verbatim>\<open>
  if scale=='log':
      pmask = znodes > 0
      znodes[~pmask] = znodes[pmask].min()
      znodes = np.log10(znodes)
  \<close>
  \<^verbatim>\<open>min()\<close> of an empty selection raises ValueError.
\<close>

definition log_scale :: "real list \<Rightarrow> py_error + real list" where
  "log_scale znodes =
     (let positive = filter (\<lambda>z. z > 0) znodes
      in if positive = [] then Inl ValueError
         else Inr (map (\<lambda>z. log 10 (if z > 0 then z else Min (set positive))) znodes))"

text \<open>
  \<^verbatim>\<open>interpolate_background\<close>: scipy's \<^verbatim>\<open>griddata\<close> is a parameter (it may raise);
  every node is marked accepted.
\<close>

definition interpolate_background ::
  "(nat \<times> nat \<Rightarrow> int list \<Rightarrow> int list \<Rightarrow> real list \<Rightarrow> py_error + real list list) \<Rightarrow>
   nat \<times> nat \<Rightarrow> int list \<Rightarrow> int list \<Rightarrow> real list \<Rightarrow> py_error + (real list list \<times> bool list)" where
  "interpolate_background griddata shape xnodes ynodes znodes =
     (case griddata shape xnodes ynodes znodes of
        Inl e \<Rightarrow> Inl e
      | Inr background_data \<Rightarrow> Inr (background_data, replicate (length znodes) True))"

text \<open>
  What the function does to the outside world, as far as it is modelled: printing,
  saving the figure and writing the region file (with its points \<open>(x+1, y+1)\<close>). Calls
  to the logger and to matplotlib other than \<^verbatim>\<open>fig.savefig\<close> are left out and taken not
  to raise.
\<close>

datatype event =
  Print string | SaveFig string | WriteRegion string "(int \<times> int) list"

text \<open>
  Statements in sequence: after a \<^verbatim>\<open>return\<close> the rest of the body is skipped.
\<close>

datatype 'a ctl = Continue "event list" | Returned "event list" 'a

definition and_then :: "'a ctl \<Rightarrow> (event list \<Rightarrow> 'a ctl) \<Rightarrow> 'a ctl" where
  "and_then s rest = (case s of Continue evs \<Rightarrow> rest evs | Returned evs v \<Rightarrow> Returned evs v)"

text \<open>The block that saves the nodes to the DS9 region file.\<close>

definition write_region :: "string option \<Rightarrow> int list \<Rightarrow> int list \<Rightarrow> event list \<Rightarrow> 'a ctl" where
  "write_region reg_file xnodes ynodes evs =
     (case reg_file of
        None \<Rightarrow> Continue evs
      | Some name \<Rightarrow>
          Continue (evs @ [WriteRegion name (map2 (\<lambda>x y. (x + 1, y + 1)) xnodes ynodes)]))"

text \<open>
  The end of the body, from \<^verbatim>\<open>plt.show()\<close> on: the figure is saved when a name is
  given, \<^verbatim>\<open>plt.close(fig)\<close> needs \<^verbatim>\<open>fig\<close>, which is bound only when \<open>plot\<close> holds, then
  \<^verbatim>\<open>return background_data\<close>, then the region-file block. A body that ends without
  \<^verbatim>\<open>return\<close> yields Python's \<^verbatim>\<open>None\<close>.
\<close>

definition finish ::
  "bool \<Rightarrow> string option \<Rightarrow> string option \<Rightarrow> int list \<Rightarrow> int list \<Rightarrow> real list list \<Rightarrow>
   event list \<Rightarrow> event list \<times> (py_error + real list list option)" where
  "finish plot fig_file reg_file xnodes ynodes background_data evs =
     (let evs1 = (case fig_file of None \<Rightarrow> evs | Some name \<Rightarrow> evs @ [SaveFig name])
      in if \<not> plot then (evs1, Inl NameError)
         else (case and_then (Returned evs1 background_data)
                      (write_region reg_file xnodes ynodes) of
                 Returned evs2 v \<Rightarrow> (evs2, Inr (Some v))
               | Continue evs2 \<Rightarrow> (evs2, Inr None)))"

text \<open>
  The part of \<^verbatim>\<open>correct_background\<close> after the nodes are found: the optional log
  transform, the choice of the method, the inverse transform, the residuals
  \<^verbatim>\<open>znodes - background_data[ynodes, xnodes]\<close> (an empty node list is a float array and
  cannot index) and the end of the body. After an unknown method the message is
  printed and \<^verbatim>\<open>background_data\<close> and \<^verbatim>\<open>fitmask\<close> stay unbound.
\<close>

definition fit_nodes ::
  "(real list \<Rightarrow> real list \<Rightarrow> real list \<Rightarrow> int \<Rightarrow> int \<Rightarrow> py_error + 'c) \<Rightarrow>
   (real \<Rightarrow> real \<Rightarrow> 'c \<Rightarrow> real) \<Rightarrow>
   (nat \<times> nat \<Rightarrow> int list \<Rightarrow> int list \<Rightarrow> real list \<Rightarrow> py_error + real list list) \<Rightarrow>
   nat \<times> nat \<Rightarrow> string \<Rightarrow> string \<Rightarrow> int \<Rightarrow> int \<Rightarrow> int \<Rightarrow> real \<Rightarrow> real \<Rightarrow>
   bool \<Rightarrow> string option \<Rightarrow> string option \<Rightarrow> int list \<times> int list \<times> real list \<Rightarrow>
   event list \<times> (py_error + real list list option)" where
  "fit_nodes pf pv griddata shape method scale xorder yorder maxiter upper_clip lower_clip
       display fig_file reg_file nodes =
     (case nodes of (xnodes, ynodes, znodes0) \<Rightarrow>
       (let plot = (display \<or> fig_file \<noteq> None) in
        case (if scale = ''log'' then log_scale znodes0 else Inr znodes0) of
          Inl e \<Rightarrow> ([], Inl e)
        | Inr znodes \<Rightarrow>
           (if method = ''poly'' then
              (case fit_background pf pv shape xnodes ynodes znodes xorder yorder maxiter
                      upper_clip lower_clip of
                 Inl e \<Rightarrow> ([], Inl e)
               | Inr (background_data, fitmask, msgs) \<Rightarrow>
                   if xnodes = [] then ([], Inl IndexError)
                   else finish plot fig_file reg_file xnodes ynodes
                          (if scale = ''log'' then map (map (\<lambda>v. 10 powr v)) background_data
                           else background_data) [])
            else if method = ''interp'' then
              (case interpolate_background griddata shape xnodes ynodes znodes of
                 Inl e \<Rightarrow> ([], Inl e)
               | Inr (background_data, fitmask) \<Rightarrow>
                   if xnodes = [] then ([], Inl IndexError)
                   else finish plot fig_file reg_file xnodes ynodes
                          (if scale = ''log'' then map (map (\<lambda>v. 10 powr v)) background_data
                           else background_data) [])
            else ([Print (''Unknown method: '' @ method)], Inl NameError))))"

text \<open>
  \<^verbatim>\<open>correct_background\<close>. \<open>None\<close>: the call does not return (an extension walk
  never ends). Otherwise the events and either the exception raised or the value
  returned.
\<close>

definition correct_background ::
  "((nat \<Rightarrow> nat \<Rightarrow> real) \<Rightarrow> (nat \<Rightarrow> nat \<Rightarrow> real)) \<Rightarrow> (int list \<Rightarrow> py_error + real list) \<Rightarrow>
   (real list \<Rightarrow> real list \<Rightarrow> real list \<Rightarrow> int \<Rightarrow> int \<Rightarrow> py_error + 'c) \<Rightarrow>
   (real \<Rightarrow> real \<Rightarrow> 'c \<Rightarrow> real) \<Rightarrow>
   (nat \<times> nat \<Rightarrow> int list \<Rightarrow> int list \<Rightarrow> real list \<Rightarrow> py_error + real list list) \<Rightarrow>
   nat \<times> nat \<Rightarrow> (nat \<Rightarrow> nat \<Rightarrow> real) \<Rightarrow> (nat \<Rightarrow> nat \<Rightarrow> int) \<Rightarrow> string list \<Rightarrow>
   (string \<times> aperture_set) list \<Rightarrow> string \<Rightarrow> string \<Rightarrow> int \<Rightarrow> int \<Rightarrow> int \<Rightarrow> int \<Rightarrow> int \<Rightarrow>
   real \<Rightarrow> real \<Rightarrow> bool \<Rightarrow> bool \<Rightarrow> string option \<Rightarrow> string option \<Rightarrow>
   (event list \<times> (py_error + real list list option)) option" where
  "correct_background median_filter polyfit pf pv griddata shape data msk channels
       apertureset_lst method scale block_mask scan_step xorder yorder maxiter upper_clip
       lower_clip extend display fig_file reg_file =
     (case sample_nodes median_filter polyfit shape data msk channels apertureset_lst
             block_mask scan_step extend of
        None \<Rightarrow> None
      | Some (Inl e) \<Rightarrow> Some ([], Inl e)
      | Some (Inr nodes) \<Rightarrow>
          Some (fit_nodes pf pv griddata shape method scale xorder yorder maxiter upper_clip
                  lower_clip display fig_file reg_file nodes))"


section \<open>Background selection in \<^verbatim>\<open>reduce_doublefiber\<close>\<close>

text \<open>
  The background step of one science frame in
  \<^verbatim>\<open>gamse/pipelines/foces/reduce_doublefiber.py\<close>. \<^verbatim>\<open>find_best_background\<close>,
  \<^verbatim>\<open>select_background_from_database\<close> and \<^verbatim>\<open>BackgroundLight.find_brightness_scale\<close>
  are imported from a module that is not modelled; they are parameters, given
  the fiber, the object name and the object type (the other arguments are fixed for the
  frame): \<open>find_best\<close> and \<open>from_database\<close> return a stored background or Python's
  \<^verbatim>\<open>None\<close>, \<open>brightness_scale\<close> the scale of a stored background for the fiber's
  observed profile, \<open>bkg_data\<close> and \<open>bkg_fileid\<close> read its map and its file id, and
  \<open>fmt\<close> formats the scale (\<^verbatim>\<open>{:6.3f}\<close>).
\<close>

text \<open>\<^verbatim>\<open>str.lower()\<close> on ASCII letters.\<close>

definition py_lower :: "string \<Rightarrow> string" where
  "py_lower s = map (\<lambda>c. if (65::nat) \<le> of_char c \<and> of_char c \<le> (90::nat)
                            then char_of (of_char c + (32::nat)) else c) s"

text \<open>\<^verbatim>\<open>chr(ifiber+65)\<close>.\<close>

definition fiber_name :: "nat \<Rightarrow> string" where
  "fiber_name ifiber = [char_of (ifiber + 65)]"

definition object_type :: "string \<Rightarrow> string" where
  "object_type objname =
     (if py_lower objname \<in> set [''comb'', ''fp''] then py_lower objname else ''star'')"

text \<open>
  The loop \<^verbatim>\<open>for (ifiber, objname) in fiberobj_lst\<close>. When both lookups return
  \<^verbatim>\<open>None\<close> the message is printed, \<^verbatim>\<open>find_background\<close> stays false, and the statement
  \<^verbatim>\<open>background = background + selected_bkg.data*scale\<close> after the \<^verbatim>\<open>if\<close> reads
  \<^verbatim>\<open>.data\<close> of \<^verbatim>\<open>None\<close>, which raises AttributeError.
\<close>

fun select_backgrounds ::
  "(string \<Rightarrow> string \<Rightarrow> string \<Rightarrow> 'b option) \<Rightarrow> (string \<Rightarrow> string \<Rightarrow> string \<Rightarrow> 'b option) \<Rightarrow>
   (string \<Rightarrow> 'b \<Rightarrow> real) \<Rightarrow> ('b \<Rightarrow> nat \<Rightarrow> nat \<Rightarrow> real) \<Rightarrow> ('b \<Rightarrow> string) \<Rightarrow>
   (real \<Rightarrow> string) \<Rightarrow> string \<Rightarrow> (nat \<times> string) list \<Rightarrow> (nat \<Rightarrow> nat \<Rightarrow> real) \<Rightarrow> event list \<Rightarrow>
   event list \<times> (py_error + (nat \<Rightarrow> nat \<Rightarrow> real))" where
  "select_backgrounds find_best from_database brightness_scale bkg_data bkg_fileid fmt
       screen_prefix [] background evs = (evs, Inr background)"
| "select_backgrounds find_best from_database brightness_scale bkg_data bkg_fileid fmt
       screen_prefix ((ifiber, objname) # fiberobj_lst) background evs =
     (let fiber = fiber_name ifiber;
          objtype = object_type objname;
          selected_bkg =
            (case find_best fiber objname objtype of
               None \<Rightarrow> from_database fiber objname objtype
             | Some b \<Rightarrow> Some b)
      in case selected_bkg of
           None \<Rightarrow>
             (evs @ [Print (screen_prefix @ ''Error: No background found in the database'')],
              Inl AttributeError)
         | Some b \<Rightarrow>
             (let scale = brightness_scale fiber b;
                  message = ''Use background of '' @ bkg_fileid b @ '' for fiber '' @ fiber
                            @ ''. scale = '' @ fmt scale
              in select_backgrounds find_best from_database brightness_scale bkg_data
                   bkg_fileid fmt screen_prefix fiberobj_lst
                   (\<lambda>y x. background y x + bkg_data b y x * scale)
                   (evs @ [Print (screen_prefix @ message)])))"

text \<open>
  The step as a whole: \<^verbatim>\<open>background = np.zeros_like(data)\<close>, the loop, and
  \<^verbatim>\<open>data = data - background\<close>.
\<close>

definition background_step ::
  "(string \<Rightarrow> string \<Rightarrow> string \<Rightarrow> 'b option) \<Rightarrow> (string \<Rightarrow> string \<Rightarrow> string \<Rightarrow> 'b option) \<Rightarrow>
   (string \<Rightarrow> 'b \<Rightarrow> real) \<Rightarrow> ('b \<Rightarrow> nat \<Rightarrow> nat \<Rightarrow> real) \<Rightarrow> ('b \<Rightarrow> string) \<Rightarrow>
   (real \<Rightarrow> string) \<Rightarrow> string \<Rightarrow> (nat \<times> string) list \<Rightarrow> (nat \<Rightarrow> nat \<Rightarrow> real) \<Rightarrow>
   event list \<times> (py_error + (nat \<Rightarrow> nat \<Rightarrow> real))" where
  "background_step find_best from_database brightness_scale bkg_data bkg_fileid fmt
       screen_prefix fiberobj_lst data =
     (case select_backgrounds find_best from_database brightness_scale bkg_data bkg_fileid
             fmt screen_prefix fiberobj_lst (\<lambda>y x. 0) [] of
        (evs, Inl e) \<Rightarrow> (evs, Inl e)
      | (evs, Inr background) \<Rightarrow> (evs, Inr (\<lambda>y x. data y x - background y x)))"


section \<open>Concrete inputs\<close>

text \<open>
  Inputs for closed runs. The images depend on the row only and are monotone in it, so
  that the 3x3 median filter (with reflection at the border) leaves them unchanged and
  the identity stands for it.
\<close>

definition ex_image :: "nat \<Rightarrow> nat \<Rightarrow> real" where
  "ex_image y x = (if y < 4 then - 5 else if y < 8 then 10 else 1000)"

definition ex_mask :: "nat \<Rightarrow> nat \<Rightarrow> int" where
  "ex_mask y x = 0"

definition ex_apertures :: "(string \<times> aperture_set) list" where
  "ex_apertures =
     [(''A'', [(0, \<lambda>x. 1), (1, \<lambda>x. 4), (2, \<lambda>x. 8), (3, \<lambda>x. 12), (4, \<lambda>x. 16)])]"

definition no_polyfit :: "int list \<Rightarrow> py_error + real list" where
  "no_polyfit ys = Inl TypeError"

definition no_griddata ::
  "nat \<times> nat \<Rightarrow> int list \<Rightarrow> int list \<Rightarrow> real list \<Rightarrow> py_error + real list list" where
  "no_griddata shape xnodes ynodes znodes = Inl ValueError"


text \<open>The surface of the run on \<open>ex_image\<close> in log scale: \<open>10\<^sup>2\<close> at every pixel.\<close>

definition ex_surface :: "real list list" where
  "ex_surface = map (\<lambda>y. [100, 100]) [0..<18]"


text \<open>
  Four node rows 10, 30, 45, 54 in a frame of height 100 and the cubic through them,
  \<open>- x\<^sup>3 / 6 - 2 x\<^sup>2 + 133 x / 6 + 10\<close>, which is what a least-squares fit of degree 3
  to four points returns. The image steps down at the node rows, the order centres lie
  at rows 5, 25, 40, 50 and 60.
\<close>

definition fall_coeff :: "real list" where
  "fall_coeff = [- 1 / 6, - 2, 133 / 6, 10]"

definition fall_polyfit :: "int list \<Rightarrow> py_error + real list" where
  "fall_polyfit inter_aper = Inr fall_coeff"

definition fall_image :: "nat \<Rightarrow> nat \<Rightarrow> real" where
  "fall_image y x = (if y < 10 then 4 else if y < 30 then 3 else if y < 45 then 2
                     else if y < 54 then 1 else 0)"

definition fall_apertures :: "(string \<times> aperture_set) list" where
  "fall_apertures =
     [(''A'', [(0, \<lambda>x. 5), (1, \<lambda>x. 25), (2, \<lambda>x. 40), (3, \<lambda>x. 50), (4, \<lambda>x. 60)])]"


text \<open>
  Four node rows 10, 68, 91, 93 and the cubic through them,
  \<open>7 x\<^sup>3 / 3 - 49 x\<^sup>2 / 2 + 481 x / 6 + 10\<close>, whose next values are 88, 90 and 113.
\<close>

definition dip_coeff :: "real list" where
  "dip_coeff = [7 / 3, - 49 / 2, 481 / 6, 10]"

definition dip_polyfit :: "int list \<Rightarrow> py_error + real list" where
  "dip_polyfit inter_aper = Inr dip_coeff"

definition dip_image :: "nat \<Rightarrow> nat \<Rightarrow> real" where
  "dip_image y x = (if y < 10 then 4 else if y < 68 then 3 else if y < 91 then 2
                     else if y < 93 then 1 else 0)"

definition dip_apertures :: "(string \<times> aperture_set) list" where
  "dip_apertures =
     [(''A'', [(0, \<lambda>x. 5), (1, \<lambda>x. 60), (2, \<lambda>x. 90), (3, \<lambda>x. 92), (4, \<lambda>x. 96)])]"


text \<open>Two fibers with one aperture each, centred at rows 10 and 50.\<close>

definition pair_apertures :: "(string \<times> aperture_set) list" where
  "pair_apertures = [(''A'', [(0, \<lambda>x. 10)]), (''B'', [(0, \<lambda>x. 50)])]"


text \<open>
  A night in which fiber A has a stored background (number 7) and fiber B has none, and
  an archive without any.
\<close>

definition ex_find_best :: "string \<Rightarrow> string \<Rightarrow> string \<Rightarrow> nat option" where
  "ex_find_best fiber objname objtype = (if fiber = ''A'' then Some 7 else None)"

definition ex_from_database :: "string \<Rightarrow> string \<Rightarrow> string \<Rightarrow> nat option" where
  "ex_from_database fiber objname objtype = None"

section \<open>Properties of the surface fit\<close>



subsection \<open>Auxiliary facts about masks and the loop\<close>

lemma select_Cons: "select (b # msk) (x # xs) = (if b then x # select msk xs else select msk xs)"
  by (simp add: select_def)

lemma select_nth:
  "length msk = length xs \<Longrightarrow> select msk xs = map (\<lambda>i. xs ! i) (spec_accepted msk)"
proof (induction msk xs rule: list_induct2)
  case Nil
  then show ?case by (simp add: select_def spec_accepted_def)
next
  case (Cons b msk x xs)
  have upt: "[0..<length (b # msk)] = 0 # map Suc [0..<length msk]"
    by (simp add: upt_conv_Cons map_Suc_upt del: upt_Suc)
  have "spec_accepted (b # msk) = (if b then [0] else []) @ map Suc (spec_accepted msk)"
    unfolding spec_accepted_def upt by (simp add: filter_map comp_def)
  then show ?case using Cons by (simp add: select_Cons comp_def)
qed

lemma select_none: "count_true msk = 0 \<Longrightarrow> select msk xs = []"
proof -
  assume "count_true msk = 0"
  then have "\<forall>b \<in> set msk. \<not> b"
    by (simp add: count_true_def filter_empty_conv)
  then have "filter fst (zip msk xs) = []"
    by (auto simp: filter_empty_conv dest: set_zip_leftD)
  then show ?thesis by (simp add: select_def)
qed

lemma count_true_replicate_False: "count_true (replicate n False) = 0"
  by (simp add: count_true_def)

lemma count_true_zero_iff: "count_true msk = 0 \<longleftrightarrow> msk = replicate (length msk) False"
proof
  assume "count_true msk = 0"
  then have "\<forall>b \<in> set msk. b = False"
    by (simp add: count_true_def filter_empty_conv)
  then show "msk = replicate (length msk) False"
    by (simp add: replicate_length_same)
next
  assume "msk = replicate (length msk) False"
  then show "count_true msk = 0"
    using count_true_replicate_False[of "length msk"] by simp
qed

lemma std_Nil: "std [] = 0"
  by (simp add: std_def mean_def)

lemma fit_round_length:
  "fit_round pf pv xfit yfit zfit xo yo u l msk = Inr (c, s, new) \<Longrightarrow>
     length new = length msk \<and> length xfit = length msk \<and> length yfit = length msk
     \<and> length zfit = length msk"
  by (auto simp: fit_round_def Let_def split: if_splits sum.splits)

lemma fit_round_none:
  assumes "count_true msk = 0" "length xfit = length msk" "length yfit = length msk"
    "length zfit = length msk"
  shows "fit_round pf pv xfit yfit zfit xo yo u l msk =
     (case pf [] [] [] xo yo of Inl e \<Rightarrow> Inl e
      | Inr c0 \<Rightarrow> Inr (c0, std [], msk))"
proof (cases "pf [] [] [] xo yo")
  case (Inl e)
  then show ?thesis using assms by (simp add: fit_round_def select_none)
next
  case (Inr c0)
  have "map2 (\<lambda>a b. a \<and> b) (map (\<lambda>r. r < u * 0) rs) (map (\<lambda>r. r > - l * 0) rs)
          = replicate (length rs) False" for rs :: "real list"
    by (intro nth_equalityI) auto
  moreover have "msk = replicate (length msk) False"
    using assms(1) by (simp add: count_true_zero_iff)
  ultimately show ?thesis
    using assms Inr by (simp add: fit_round_def select_none std_Nil Let_def)
qed

lemma residuals_nth:
  assumes "length xfit = length zfit" "length yfit = length zfit"
  shows "map2 (\<lambda>z v. z - v) zfit (map2 (\<lambda>x y. pv x y c) xfit yfit)
           = map (spec_residual pv xfit yfit zfit c) [0..<length zfit]"
  using assms by (intro nth_equalityI) (simp_all add: spec_residual_def)

lemma select_residuals:
  assumes "length msk = length zfit"
  shows "select msk (map f [0..<length zfit]) = map f (spec_accepted msk)"
proof -
  have "i \<in> set (spec_accepted msk) \<Longrightarrow> i < length zfit" for i
    using assms by (auto simp: spec_accepted_def)
  then show ?thesis using assms by (simp add: select_nth)
qed

lemma clip_nth:
  "map2 (\<lambda>a b. a \<and> b) (map (\<lambda>r. r < u * s) (map f [0..<n]))
       (map (\<lambda>r. r > - l * s) (map f [0..<n]))
     = map (\<lambda>i. - l * s < f i \<and> f i < u * s) [0..<n]"
  by (intro nth_equalityI) auto

lemma fit_round_spec:
  assumes "length xfit = length zfit" "length yfit = length zfit" "length msk = length zfit"
  shows "map_sum id (\<lambda>(c, sigma, new_mask). (c, new_mask))
           (fit_round pf pv xfit yfit zfit xo yo u l msk)
         = spec_round pf pv xfit yfit zfit xo yo u l msk"
proof -
  have sx: "select msk xfit = map (\<lambda>i. xfit ! i) (spec_accepted msk)"
    and sy: "select msk yfit = map (\<lambda>i. yfit ! i) (spec_accepted msk)"
    and sz: "select msk zfit = map (\<lambda>i. zfit ! i) (spec_accepted msk)"
    using assms by (simp_all add: select_nth)
  show ?thesis
  proof (cases "pf (select msk xfit) (select msk yfit) (select msk zfit) xo yo")
    case (Inl e)
    then show ?thesis
      using assms by (simp add: fit_round_def spec_round_def flip: sx sy sz)
  next
    case (Inr c)
    have res: "map2 (\<lambda>z v. z - v) zfit (map2 (\<lambda>x y. pv x y c) xfit yfit)
           = map (spec_residual pv xfit yfit zfit c) [0..<length zfit]"
      by (rule residuals_nth[OF assms(1,2)])
    have sel: "select msk (map (spec_residual pv xfit yfit zfit c) [0..<length zfit])
           = map (spec_residual pv xfit yfit zfit c) (spec_accepted msk)"
      by (rule select_residuals[OF assms(3)])
    have "fit_round pf pv xfit yfit zfit xo yo u l msk
           = Inr (c, std (map (spec_residual pv xfit yfit zfit c) (spec_accepted msk)),
                  map (\<lambda>i. - l * std (map (spec_residual pv xfit yfit zfit c) (spec_accepted msk))
                                 < spec_residual pv xfit yfit zfit c i
                             \<and> spec_residual pv xfit yfit zfit c i
                                 < u * std (map (spec_residual pv xfit yfit zfit c) (spec_accepted msk)))
                      [0..<length zfit])"
      using assms
      by (simp only: fit_round_def Let_def Inr sum.case res sel clip_nth) simp
    moreover have "spec_round pf pv xfit yfit zfit xo yo u l msk
           = Inr (c, map (\<lambda>i. - l * std (map (spec_residual pv xfit yfit zfit c) (spec_accepted msk))
                                 < spec_residual pv xfit yfit zfit c i
                             \<and> spec_residual pv xfit yfit zfit c i
                                 < u * std (map (spec_residual pv xfit yfit zfit c) (spec_accepted msk)))
                      [0..<length zfit])"
      unfolding spec_round_def Let_def using Inr by (simp flip: sx sy sz)
    ultimately show ?thesis by simp
  qed
qed

lemma fit_loop_spec:
  assumes "length xfit = length zfit" "length yfit = length zfit" "length msk = length zfit"
  shows "map_sum id (\<lambda>(co, m, msgs'). (co, m))
           (fit_loop pf pv xfit yfit zfit xo yo u l (Suc k) niter coeff msk msgs)
         = map_sum id (\<lambda>(c, m). (Some c, m))
             (spec_iterate pf pv xfit yfit zfit xo yo u l k msk)"
  using assms(3)
proof (induction k arbitrary: niter coeff msk msgs)
  case 0
  show ?case
  proof (cases "fit_round pf pv xfit yfit zfit xo yo u l msk")
    case (Inl e)
    with fit_round_spec[OF assms(1,2) 0, of pf pv xo yo u l, symmetric] show ?thesis by simp
  next
    case (Inr r)
    then obtain c s new where r: "fit_round pf pv xfit yfit zfit xo yo u l msk = Inr (c, s, new)"
      by (cases r) auto
    with fit_round_spec[OF assms(1,2) 0, of pf pv xo yo u l, symmetric]
    have "spec_round pf pv xfit yfit zfit xo yo u l msk = Inr (c, new)" by simp
    with r show ?thesis by simp
  qed
next
  case (Suc k)
  show ?case
  proof (cases "fit_round pf pv xfit yfit zfit xo yo u l msk")
    case (Inl e)
    with fit_round_spec[OF assms(1,2) Suc.prems, of pf pv xo yo u l, symmetric] show ?thesis by simp
  next
    case (Inr r)
    then obtain c s new where r: "fit_round pf pv xfit yfit zfit xo yo u l msk = Inr (c, s, new)"
      by (cases r) auto
    with fit_round_spec[OF assms(1,2) Suc.prems, of pf pv xo yo u l, symmetric]
    have sp: "spec_round pf pv xfit yfit zfit xo yo u l msk = Inr (c, new)" by simp
    from fit_round_length[OF r] Suc.prems have len: "length new = length zfit" by simp
    show ?thesis
    proof (cases "count_true new = count_true msk")
      case True
      with r sp show ?thesis by simp
    next
      case False
      have "fit_loop pf pv xfit yfit zfit xo yo u l (Suc (Suc k)) niter coeff msk msgs
             = fit_loop pf pv xfit yfit zfit xo yo u l (Suc k) (Suc niter) (Some c) new
                 (msgs @ [(niter, s, count_true msk, count_true new)])"
        using r False by simp
      moreover have "spec_iterate pf pv xfit yfit zfit xo yo u l (Suc k) msk
             = spec_iterate pf pv xfit yfit zfit xo yo u l k new"
        using sp False by simp
      ultimately show ?thesis using Suc.IH[OF len] by simp
    qed
  qed
qed

lemma fit_loop_rounds:
  "fit_loop pf pv xfit yfit zfit xo yo u l n niter coeff msk msgs = Inr (co, m, msgs') \<Longrightarrow>
     length msgs' \<le> length msgs + n"
proof (induction n arbitrary: niter coeff msk msgs)
  case 0
  then show ?case by simp
next
  case (Suc k)
  from Suc.prems obtain c s new where
    r: "fit_round pf pv xfit yfit zfit xo yo u l msk = Inr (c, s, new)"
    by (auto split: sum.splits)
  show ?case
  proof (cases "count_true new = count_true msk")
    case True
    with Suc.prems r show ?thesis by auto
  next
    case False
    with Suc.prems r have
      "fit_loop pf pv xfit yfit zfit xo yo u l k (Suc niter) (Some c) new
         (msgs @ [(niter, s, count_true msk, count_true new)]) = Inr (co, m, msgs')"
      by simp
    from Suc.IH[OF this] show ?thesis by simp
  qed
qed




subsection \<open>Closed runs used as examples\<close>

lemma run_two_rounds:
  "fit_background polyfit2d_const polyval2d_const (1, 1) [0, 0, 0, 0, 0, 0] [0, 0, 0, 0, 0, 0]
        [0, 1, 1, 3, 9, 10] 0 0 5 (7/5) (1/2)
      = Inr ([[6]], [False, False, False, True, True, False], [(0, 4, 6, 2), (1, 3, 2, 2)])"
  by (simp add: fit_background_def fit_background_from_def fit_round_def polyfit2d_const_def
        polyval2d_const_def select_def std_def mean_def count_true_def eval_surface_def
        eval_nat_numeral)

lemma round_second:
  "fit_round polyfit2d_const polyval2d_const [0, 0, 0, 0, 0, 0] [0, 0, 0, 0, 0, 0]
        [0, 1, 1, 3, 9, 10] 0 0 (7/5) (1/2) [False, False, False, True, True, False]
      = Inr (6, 3, [False, False, False, False, True, True])"
  by (simp add: fit_round_def polyfit2d_const_def polyval2d_const_def select_def std_def
        mean_def)

lemma round_flat:
  "fit_round polyfit2d_const polyval2d_const [0, 0] [0, 0] [5, 5] 0 0 3 3 [True, True]
      = Inr (5, 0, [False, False])"
  by (simp add: fit_round_def polyfit2d_const_def polyval2d_const_def select_def std_def
        mean_def)

subsection \<open>Claims about \<^verbatim>\<open>fit_background\<close>\<close>




text \<open>
  C2 as stated fails. With two nodes of equal intensity the constant fit is exact, the
  residual deviation is \<open>0\<close> and the strict clip accepts no node. With \<open>maxiter = 1\<close>
  the loop ends there and the empty mask is returned, not the previous one. With
  \<open>maxiter = 5\<close> the loop does not halt: pass 1 runs with \<open>N = 0\<close>, that is,
  \<^verbatim>\<open>polyfit2d\<close> is called on zero points, and the empty mask is returned.
\<close>

theorem empty_accept_counterexample:
  "accept_log (fit_background polyfit2d_const polyval2d_const (1, 1) [0, 0] [0, 0]
        [5, 5] 0 0 1 3 3)
     = Some ([False, False], [(0, 2, 0)])
   \<and> accept_log (fit_background polyfit2d_const polyval2d_const (1, 1) [0, 0] [0, 0]
        [5, 5] 0 0 5 3 3)
     = Some ([False, False], [(0, 2, 0), (1, 0, 0)])"
proof -
  have one: "accept_log (fit_background polyfit2d_const polyval2d_const (1, 1) [0, 0] [0, 0]
        [5, 5] 0 0 1 3 3)
     = Some ([False, False], [(0, 2, 0)])"
    by (simp add: accept_log_def fit_background_def fit_background_from_def fit_round_def
        polyfit2d_const_def polyval2d_const_def select_def std_def mean_def count_true_def
        eval_surface_def eval_nat_numeral)
  have five: "accept_log (fit_background polyfit2d_const polyval2d_const (1, 1) [0, 0] [0, 0]
        [5, 5] 0 0 5 3 3)
     = Some ([False, False], [(0, 2, 0), (1, 0, 0)])"
    by (simp add: accept_log_def fit_background_def fit_background_from_def fit_round_def
        polyfit2d_const_def polyval2d_const_def select_def std_def mean_def count_true_def
        eval_surface_def eval_nat_numeral)
  from one five show ?thesis by (rule conjI)
qed

text \<open>
  C2, amended. \<^verbatim>\<open>fit_background\<close> has no guard for an empty accepted set. When a pass
  accepts no node although its working mask was not empty, the empty mask becomes the
  working mask: if that pass was the last one allowed, the empty mask is returned with
  the coefficients of that pass; otherwise the next pass calls \<^verbatim>\<open>polyfit2d\<close> on zero
  points, and the loop then stops (\<open>0 = 0\<close> nodes accepted) with the empty mask and the
  coefficients fitted to zero points, or with the error that call raises.
\<close>

theorem fit_loop_empty_accept:
  assumes "fit_round pf pv xfit yfit zfit xo yo u l msk = Inr (c, sigma, new_mask)"
    and "count_true new_mask = 0" and "0 < count_true msk"
  shows "fit_loop pf pv xfit yfit zfit xo yo u l (Suc k) niter coeff msk msgs =
     (if k = 0 then Inr (Some c, new_mask, msgs @ [(niter, sigma, count_true msk, 0)])
      else case pf [] [] [] xo yo of
             Inl e \<Rightarrow> Inl e
           | Inr c0 \<Rightarrow> Inr (Some c0, new_mask,
                 msgs @ [(niter, sigma, count_true msk, 0), (Suc niter, std [], 0, 0)]))"
proof (cases k)
  case 0
  with assms show ?thesis by simp
next
  case (Suc k')
  from fit_round_length[OF assms(1)] have len:
    "length xfit = length new_mask" "length yfit = length new_mask"
    "length zfit = length new_mask" by simp_all
  have first: "fit_loop pf pv xfit yfit zfit xo yo u l (Suc k) niter coeff msk msgs
      = fit_loop pf pv xfit yfit zfit xo yo u l (Suc k') (Suc niter) (Some c) new_mask
          (msgs @ [(niter, sigma, count_true msk, 0)])"
    using assms Suc by simp
  show ?thesis
    unfolding first using Suc assms(2)
    by (simp add: fit_round_none[OF assms(2) len] split: sum.splits)
qed

theorem fit_loop_empty_accept_witness:
  "fit_loop polyfit2d_const polyval2d_const [0, 0] [0, 0] [5, 5] 0 0 3 3 (Suc 4) 0 None
        [True, True] []
     = Inr (Some 0, [False, False], [(0, 0, 2, 0), (1, 0, 0, 0)])"
proof -
  have e: "count_true [False, False] = 0" by (simp add: count_true_def)
  have n: "0 < count_true [True, True]" by (simp add: count_true_def)
  show ?thesis
    using fit_loop_empty_accept[OF round_flat e n, of 4 0 None "[]"]
    by (simp add: count_true_def polyfit2d_const_def mean_def std_def)
qed

text \<open>
  C3 as stated fails in its stopping rule. In the run below pass 1 works on the nodes
  of intensity 3 and 9 and accepts the nodes of intensity 9 and 10 instead: the
  accepted set has changed, yet the loop stops after two of five passes, because the
  two sets have the same size.
\<close>

theorem stop_on_changed_set_counterexample:
  "fit_round polyfit2d_const polyval2d_const [0, 0, 0, 0, 0, 0] [0, 0, 0, 0, 0, 0]
        [0, 1, 1, 3, 9, 10] 0 0 (7/5) (1/2) [False, False, False, True, True, False]
      = Inr (6, 3, [False, False, False, False, True, True])
   \<and> accept_log (fit_background polyfit2d_const polyval2d_const (1, 1) [0, 0, 0, 0, 0, 0]
        [0, 0, 0, 0, 0, 0] [0, 1, 1, 3, 9, 10] 0 0 5 (7/5) (1/2))
      = Some ([False, False, False, True, True, False], [(0, 6, 2), (1, 2, 2)])"
  unfolding round_second run_two_rounds by (simp add: accept_log_def)

text \<open>
  C3, amended. For node sequences of equal length and \<open>maxiter > 0\<close>, \<^verbatim>\<open>fit_background\<close>
  performs at most \<open>maxiter\<close> rounds of: least-squares fit of degree \<open>(xorder, yorder)\<close>
  over the currently accepted nodes; residuals of all nodes; standard deviation of the
  residuals of the accepted nodes; a node is accepted iff
  \<open>- lower_clip * sigma < residual < upper_clip * sigma\<close>. It stops early exactly when
  the number of accepted nodes equals the number of nodes in the working mask (the sets
  are not compared) and then returns the working mask; otherwise the new mask is the
  working set of the next round. The surface is the last fitted polynomial on the full
  grid.
\<close>

theorem fit_background_refines_spec:
  assumes "0 < maxiter" and "length xnodes = length znodes"
    and "length ynodes = length znodes"
  shows "map_sum id (\<lambda>(bg, m, msgs). (bg, m))
           (fit_background pf pv shape xnodes ynodes znodes xo yo maxiter u l)
         = spec_fit_background pf pv shape xnodes ynodes znodes xo yo maxiter u l
       \<and> (\<forall>bg m msgs. fit_background pf pv shape xnodes ynodes znodes xo yo maxiter u l
              = Inr (bg, m, msgs) \<longrightarrow> length msgs \<le> nat maxiter)"
proof -
  obtain h w where shape: "shape = (h, w)" by (cases shape)
  define xfit where "xfit = map (\<lambda>x. real_of_int x / real w) xnodes"
  define yfit where "yfit = map (\<lambda>y. real_of_int y / real h) ynodes"
  define W0 where "W0 = replicate (length znodes) True"
  from assms(1) obtain k where k: "nat maxiter = Suc k"
    by (cases "nat maxiter") auto
  have len: "length xfit = length znodes" "length yfit = length znodes"
    "length W0 = length znodes"
    using assms(2,3) by (simp_all add: xfit_def yfit_def W0_def)
  have sp: "map_sum id (\<lambda>(co, m, msgs'). (co, m))
           (fit_loop pf pv xfit yfit znodes xo yo u l (Suc k) 0 None W0 [])
         = map_sum id (\<lambda>(c, m). (Some c, m))
             (spec_iterate pf pv xfit yfit znodes xo yo u l k W0)"
    by (rule fit_loop_spec[OF len])
  have first: "map_sum id (\<lambda>(bg, m, msgs). (bg, m))
           (fit_background pf pv shape xnodes ynodes znodes xo yo maxiter u l)
         = spec_fit_background pf pv shape xnodes ynodes znodes xo yo maxiter u l"
  proof (cases "fit_loop pf pv xfit yfit znodes xo yo u l (Suc k) 0 None W0 []")
    case (Inl e)
    with sp have "spec_iterate pf pv xfit yfit znodes xo yo u l k W0 = Inl e"
      by (cases "spec_iterate pf pv xfit yfit znodes xo yo u l k W0") auto
    with Inl show ?thesis
      by (simp add: fit_background_def fit_background_from_def spec_fit_background_def
            shape k flip: xfit_def yfit_def W0_def)
  next
    case (Inr r)
    obtain co m msgs where r: "r = (co, m, msgs)" by (cases r)
    with sp Inr obtain c where
      "spec_iterate pf pv xfit yfit znodes xo yo u l k W0 = Inr (c, m)" "co = Some c"
      by (cases "spec_iterate pf pv xfit yfit znodes xo yo u l k W0") auto
    with Inr r show ?thesis
      by (simp add: fit_background_def fit_background_from_def spec_fit_background_def
            shape k flip: xfit_def yfit_def W0_def)
  qed
  have second: "length msgs \<le> nat maxiter"
    if "fit_background pf pv shape xnodes ynodes znodes xo yo maxiter u l = Inr (bg, m, msgs)"
    for bg m msgs
  proof -
    from that obtain co where
      "fit_loop pf pv xfit yfit znodes xo yo u l (nat maxiter) 0 None W0 [] = Inr (co, m, msgs)"
      by (auto simp: fit_background_def fit_background_from_def shape xfit_def yfit_def W0_def
            split: sum.splits option.splits)
    from fit_loop_rounds[OF this] show ?thesis by simp
  qed
  from first second show ?thesis by blast
qed

theorem fit_background_refines_spec_witness:
  "spec_fit_background polyfit2d_const polyval2d_const (1, 1) [0, 0, 0, 0, 0, 0]
       [0, 0, 0, 0, 0, 0] [0, 1, 1, 3, 9, 10] 0 0 5 (7/5) (1/2)
     = Inr ([[6]], [False, False, False, True, True, False])"
proof -
  have m: "(0::int) < 5" by simp
  have lx: "length [0, 0, 0, 0, 0, 0 :: int] = length [0, 1, 1, 3, 9, 10 :: real]" by simp
  show ?thesis
    using fit_background_refines_spec[OF m lx lx, of polyfit2d_const polyval2d_const "(1, 1)"
        0 0 "7/5" "1/2"]
    unfolding run_two_rounds by simp
qed



section \<open>Properties of the node sampler and of \<^verbatim>\<open>correct_background\<close>\<close>

subsection \<open>Closed runs used as examples\<close>

lemma ex_range: "aperture_range ex_apertures [''A''] = Inr (0, 4)"
  by (simp add: aperture_range_def ex_apertures_def)

lemma ex_columns: "scan_columns 2 1 = Inr [0, 1]"
  by (simp add: scan_columns_def)

lemma upto04: "[0..4::int] = [0,1,2,3,4]"
  by (simp add: upto.simps)

lemma ex_inter: "find_inter_aper ex_apertures 18 1 (\<lambda>y. ex_image y x) x [''A''] 0 4 = Inr [1, 4, 8, 12]"
  by (simp add: find_inter_aper_def upto04 ex_apertures_def ex_image_def scan_center_def clamp_row_def py_int_def upt_rec)

lemma ex_rows: "column_rows no_polyfit ex_apertures 18 1 (\<lambda>y. ex_image y x) x [''A''] 0 4 False = Some (Inr [1, 4, 8, 12])"
  by (simp add: column_rows_def ex_inter remove_outside_def remove_backward_def)

lemma ex_pixels: "ex_image (Suc 0) x = - 5" "ex_image 4 x = 10" "ex_image 8 x = 1000"
  "ex_image 12 x = 1000"
  by (simp_all add: ex_image_def)

lemma ex_nodes: "sample_nodes (\<lambda>d. d) no_polyfit (18, 2) ex_image ex_mask [''A''] ex_apertures 4 1 False
   = Some (Inr ([0,0,0,0,1,1,1,1], [1,4,8,12,1,4,8,12], [-5,10,1000,1000,-5,10,1000,1000]))"
  by (simp add: sample_nodes_def ex_range ex_columns ex_rows ex_mask_def ex_pixels)

lemma log1000: "log 10 1000 = 3"
  using log_nat_power[of 10 10 3] by simp

lemma ex_log: "log_scale [-5,10,1000,1000,-5,10,1000,1000] = Inr [1,1,3,3,1,1,3,3]"
  by (simp add: log_scale_def log1000)

lemma ex_fit18: "fit_background polyfit2d_const polyval2d_const (18, 2) [0,0,0,0,1,1,1,1] [1,4,8,12,1,4,8,12] [1,1,3,3,1,1,3,3] 0 0 5 3 3
   = Inr (map (\<lambda>y. [2, 2]) [0..<18], replicate 8 True, [(0, 1, 8, 8)])"
  by (simp add: fit_background_def fit_background_from_def fit_round_def polyfit2d_const_def
        polyval2d_const_def select_def std_def mean_def count_true_def eval_surface_def
        eval_nat_numeral)

subsection \<open>The end of the body\<close>

lemma finish_events:
  assumes "finish plot fig_file reg_file xnodes ynodes bg [] = (evs, r)"
  shows "(\<forall>name pts. WriteRegion name pts \<notin> set evs) \<and> r \<noteq> Inr None
         \<and> (\<forall>v. r = Inr (Some v) \<longrightarrow> v = bg)"
  using assms
  by (auto simp: finish_def and_then_def Let_def split: option.splits if_splits)

lemma fit_nodes_events:
  assumes "fit_nodes pf pv griddata shape method scale xorder yorder maxiter upper_clip lower_clip
       display fig_file reg_file nodes = (evs, r)"
  shows "(\<forall>name pts. WriteRegion name pts \<notin> set evs) \<and> r \<noteq> Inr None"
proof -
  obtain xnodes ynodes znodes0 where n: "nodes = (xnodes, ynodes, znodes0)"
    by (cases nodes) auto
  show ?thesis
    using assms unfolding n fit_nodes_def Let_def
    by (auto split: sum.splits if_splits prod.splits dest!: finish_events)
qed

subsection \<open>Closed runs of \<^verbatim>\<open>correct_background\<close>\<close>

lemma ex_run_log:
  "correct_background (\<lambda>d. d) no_polyfit polyfit2d_const polyval2d_const no_griddata (18, 2)
      ex_image ex_mask [''A''] ex_apertures ''poly'' ''log'' 4 1 0 0 5 3 3 False True
      (Some ''bkg.png'') (Some ''nodes.reg'')
   = Some ([SaveFig ''bkg.png''], Inr (Some ex_surface))"
  unfolding correct_background_def ex_nodes
  by (simp add: fit_nodes_def ex_log ex_fit18 finish_def and_then_def ex_surface_def)

lemma ex_run_unknown:
  "correct_background (\<lambda>d. d) no_polyfit polyfit2d_const polyval2d_const no_griddata (18, 2)
      ex_image ex_mask [''A''] ex_apertures ''spline'' ''linear'' 4 1 0 0 5 3 3 False True
      None None
   = Some ([Print ''Unknown method: spline''], Inl NameError)"
  unfolding correct_background_def ex_nodes
  by (simp add: fit_nodes_def)

lemma fiber_name_1: "fiber_name 1 = ''B''"
  by code_simp


subsection \<open>The log transform\<close>



subsection \<open>The minimum row of a slice\<close>

lemma argmin_less: "xs \<noteq> [] \<Longrightarrow> argmin xs < length xs"
  by (induction xs) auto

lemma argmin_le: "i < length xs \<Longrightarrow> xs ! argmin xs \<le> xs ! i"
proof (induction xs arbitrary: i)
  case Nil
  then show ?case by simp
next
  case (Cons x xs)
  show ?case
  proof (cases i)
    case 0
    then show ?thesis by auto
  next
    case (Suc j)
    with Cons.prems have j: "j < length xs" by simp
    then have "xs \<noteq> []" by auto
    with Cons.IH[OF j] Suc show ?thesis by auto
  qed
qed

lemma argmin_first: "i < argmin xs \<Longrightarrow> xs ! argmin xs < xs ! i"
proof (induction xs arbitrary: i)
  case Nil
  then show ?case by simp
next
  case (Cons x xs)
  from Cons.prems have split: "\<not> (xs = [] \<or> x \<le> xs ! argmin xs)"
    by (auto split: if_splits)
  then have am: "argmin (x # xs) = Suc (argmin xs)" by simp
  show ?case
  proof (cases i)
    case 0
    with split am show ?thesis by auto
  next
    case (Suc j)
    with Cons.prems am have "j < argmin xs" by simp
    from Cons.IH[OF this] Suc am show ?thesis by simp
  qed
qed

lemma slice_argmin:
  fixes xsection :: "nat \<Rightarrow> real" and i1 i2 :: nat
  assumes "i1 < i2"
  defines "r \<equiv> i1 + argmin (map xsection [i1..<i2])"
  shows "i1 \<le> r \<and> r < i2
       \<and> (\<forall>y. i1 \<le> y \<and> y < i2 \<longrightarrow> xsection r \<le> xsection y)
       \<and> (\<forall>y. i1 \<le> y \<and> y < r \<longrightarrow> xsection r < xsection y)"
proof -
  let ?xs = "map xsection [i1..<i2]"
  from assms(1) have ne: "?xs \<noteq> []" by simp
  from argmin_less[OF ne] have a: "argmin ?xs < i2 - i1" by simp
  then have rv: "?xs ! argmin ?xs = xsection r" by (simp add: r_def)
  have le: "xsection r \<le> xsection y" if "i1 \<le> y" "y < i2" for y
  proof -
    from that have "y - i1 < length ?xs" by simp
    from argmin_le[OF this] that show ?thesis by (simp add: rv)
  qed
  have lt: "xsection r < xsection y" if "i1 \<le> y" "y < r" for y
  proof -
    from that have lt: "y - i1 < argmin ?xs" unfolding r_def by linarith
    with a that have "y < i2" by linarith
    with that have "?xs ! (y - i1) = xsection y" by simp
    with argmin_first[OF lt] show ?thesis by (simp add: rv)
  qed
  from a le lt show ?thesis by (auto simp: r_def)
qed


subsection \<open>The extension walks\<close>

lemma extend_up_reaches_if:
  "int h - 1 \<le> py_int (polyval coeff (real_of_int (ii + int (Suc k)))) \<Longrightarrow>
     \<exists>r. extend_up coeff h ii new_y acc = Some r"
proof (induction k arbitrary: ii new_y acc)
  case 0
  show ?case
  proof (cases "new_y < int h - 1")
    case False
    then show ?thesis by (subst extend_up.simps) simp
  next
    case True
    have "extend_up coeff h (ii + 1) (py_int (polyval coeff (real_of_int (ii + 1))))
            (acc @ [py_int (polyval coeff (real_of_int (ii + 1)))])
          = Some (acc @ [py_int (polyval coeff (real_of_int (ii + 1)))])"
      using 0 by (subst extend_up.simps) simp
    with True show ?thesis by (subst extend_up.simps) simp
  qed
next
  case (Suc k)
  show ?case
  proof (cases "new_y < int h - 1")
    case False
    then show ?thesis by (subst extend_up.simps) simp
  next
    case True
    have eq: "ii + 1 + int (Suc k) = ii + int (Suc (Suc k))" by simp
    have "int h - 1 \<le> py_int (polyval coeff (real_of_int (ii + 1 + int (Suc k))))"
      unfolding eq by (rule Suc.prems)
    from Suc.IH[OF this] obtain r where
      "extend_up coeff h (ii + 1) (py_int (polyval coeff (real_of_int (ii + 1))))
            (acc @ [py_int (polyval coeff (real_of_int (ii + 1)))]) = Some r"
      by blast
    with True show ?thesis by (subst extend_up.simps) simp
  qed
qed

lemma extend_up_reaches_only_if:
  assumes "extend_up coeff h ii new_y acc = Some r"
  shows "int h - 1 \<le> new_y
       \<or> (\<exists>k. int h - 1 \<le> py_int (polyval coeff (real_of_int (ii + int (Suc k)))))"
proof (rule extend_up.raw_induct[where P = "\<lambda>c h' i y a r'. int h' - 1 \<le> y
       \<or> (\<exists>k. int h' - 1 \<le> py_int (polyval c (real_of_int (i + int (Suc k)))))",
       rotated, OF assms])
  fix walk :: "real list \<Rightarrow> nat \<Rightarrow> int \<Rightarrow> int \<Rightarrow> int list \<Rightarrow> int list option"
  fix c h' i y a r'
  assume IH: "\<And>c h' i y a r'. walk c h' i y a = Some r' \<Longrightarrow> int h' - 1 \<le> y
       \<or> (\<exists>k. int h' - 1 \<le> py_int (polyval c (real_of_int (i + int (Suc k)))))"
  assume step: "(if y < int h' - 1
      then walk c h' (i + 1) (py_int (polyval c (real_of_int (i + 1))))
             (a @ [py_int (polyval c (real_of_int (i + 1)))])
      else Some a) = Some r'"
  show "int h' - 1 \<le> y
       \<or> (\<exists>k. int h' - 1 \<le> py_int (polyval c (real_of_int (i + int (Suc k)))))"
  proof (cases "y < int h' - 1")
    case False
    then show ?thesis by simp
  next
    case True
    with step have "walk c h' (i + 1) (py_int (polyval c (real_of_int (i + 1))))
             (a @ [py_int (polyval c (real_of_int (i + 1)))]) = Some r'"
      by simp
    from IH[OF this] show ?thesis
    proof
      assume "int h' - 1 \<le> py_int (polyval c (real_of_int (i + 1)))"
      then have "int h' - 1 \<le> py_int (polyval c (real_of_int (i + int (Suc 0))))" by simp
      then show ?thesis by blast
    next
      assume "\<exists>k. int h' - 1 \<le> py_int (polyval c (real_of_int (i + 1 + int (Suc k))))"
      then obtain k where
        k: "int h' - 1 \<le> py_int (polyval c (real_of_int (i + 1 + int (Suc k))))" by blast
      have eq: "i + 1 + int (Suc k) = i + int (Suc (Suc k))" by simp
      from k have "int h' - 1 \<le> py_int (polyval c (real_of_int (i + int (Suc (Suc k)))))"
        unfolding eq .
      then show ?thesis by blast
    qed
  qed
qed

lemma extend_down_reaches_if:
  "py_int (polyval coeff (real_of_int (ii - int (Suc k)))) \<le> 0 \<Longrightarrow>
     \<exists>r. extend_down coeff ii new_y acc = Some r"
proof (induction k arbitrary: ii new_y acc)
  case 0
  show ?case
  proof (cases "new_y > 0")
    case False
    then show ?thesis by (subst extend_down.simps) simp
  next
    case True
    have "extend_down coeff (ii - 1) (py_int (polyval coeff (real_of_int (ii - 1))))
            (py_int (polyval coeff (real_of_int (ii - 1))) # acc)
          = Some (py_int (polyval coeff (real_of_int (ii - 1))) # acc)"
      using 0 by (subst extend_down.simps) simp
    with True show ?thesis by (subst extend_down.simps) simp
  qed
next
  case (Suc k)
  show ?case
  proof (cases "new_y > 0")
    case False
    then show ?thesis by (subst extend_down.simps) simp
  next
    case True
    have eq: "ii - 1 - int (Suc k) = ii - int (Suc (Suc k))" by simp
    have "py_int (polyval coeff (real_of_int (ii - 1 - int (Suc k)))) \<le> 0"
      unfolding eq by (rule Suc.prems)
    from Suc.IH[OF this] obtain r where
      "extend_down coeff (ii - 1) (py_int (polyval coeff (real_of_int (ii - 1))))
            (py_int (polyval coeff (real_of_int (ii - 1))) # acc) = Some r"
      by blast
    with True show ?thesis by (subst extend_down.simps) simp
  qed
qed

lemma extend_down_reaches_only_if:
  assumes "extend_down coeff ii new_y acc = Some r"
  shows "new_y \<le> 0
       \<or> (\<exists>k. py_int (polyval coeff (real_of_int (ii - int (Suc k)))) \<le> 0)"
proof (rule extend_down.raw_induct[where P = "\<lambda>c i y a r'. y \<le> 0
       \<or> (\<exists>k. py_int (polyval c (real_of_int (i - int (Suc k)))) \<le> 0)",
       rotated, OF assms])
  fix walk :: "real list \<Rightarrow> int \<Rightarrow> int \<Rightarrow> int list \<Rightarrow> int list option"
  fix c i and y :: int and a r'
  assume IH: "\<And>c i y a r'. walk c i y a = Some r' \<Longrightarrow> y \<le> 0
       \<or> (\<exists>k. py_int (polyval c (real_of_int (i - int (Suc k)))) \<le> 0)"
  assume step: "(if y > 0
      then walk c (i - 1) (py_int (polyval c (real_of_int (i - 1))))
             (py_int (polyval c (real_of_int (i - 1))) # a)
      else Some a) = Some r'"
  show "y \<le> 0 \<or> (\<exists>k. py_int (polyval c (real_of_int (i - int (Suc k)))) \<le> 0)"
  proof (cases "y > 0")
    case False
    then show ?thesis by simp
  next
    case True
    with step have "walk c (i - 1) (py_int (polyval c (real_of_int (i - 1))))
             (py_int (polyval c (real_of_int (i - 1))) # a) = Some r'"
      by simp
    from IH[OF this] show ?thesis
    proof
      assume "py_int (polyval c (real_of_int (i - 1))) \<le> 0"
      then have "py_int (polyval c (real_of_int (i - int (Suc 0)))) \<le> 0" by simp
      then show ?thesis by blast
    next
      assume "\<exists>k. py_int (polyval c (real_of_int (i - 1 - int (Suc k)))) \<le> 0"
      then obtain k where
        k: "py_int (polyval c (real_of_int (i - 1 - int (Suc k)))) \<le> 0" by blast
      have eq: "i - 1 - int (Suc k) = i - int (Suc (Suc k))" by simp
      from k have "py_int (polyval c (real_of_int (i - int (Suc (Suc k))))) \<le> 0"
        unfolding eq .
      then show ?thesis by blast
    qed
  qed
qed

lemma py_int_less: "r < real_of_int n \<Longrightarrow> 0 < n \<Longrightarrow> py_int r < n"
  by (auto simp: py_int_def floor_less_iff ceiling_less_iff)

lemma fall_poly_bound:
  fixes x :: real
  assumes "0 \<le> x"
  shows "polyval fall_coeff x < 99"
proof -
  have p: "polyval fall_coeff x = - (x ^ 3) / 6 - 2 * x\<^sup>2 + 133 * x / 6 + 10"
    by (simp add: polyval_def fall_coeff_def power2_eq_square power3_eq_cube algebra_simps)
  have "0 \<le> (x - 133 / 24)\<^sup>2" by simp
  then have q: "133 * x / 6 \<le> 2 * x\<^sup>2 + 62"
    by (simp add: power2_eq_square algebra_simps)
  have "0 \<le> x ^ 3" using assms by simp
  with q show ?thesis unfolding p by linarith
qed

lemma fall_walk_diverges:
  assumes "3 \<le> ii" and "new_y < 99"
  shows "extend_up fall_coeff 100 ii new_y acc = None"
proof (rule ccontr)
  assume "extend_up fall_coeff 100 ii new_y acc \<noteq> None"
  then obtain r where r: "extend_up fall_coeff 100 ii new_y acc = Some r" by blast
  from extend_up_reaches_only_if[OF r] assms(2) obtain k where
    k: "int 100 - 1 \<le> py_int (polyval fall_coeff (real_of_int (ii + int (Suc k))))"
    by auto
  have "0 \<le> real_of_int (ii + int (Suc k))" using assms(1) by simp
  from fall_poly_bound[OF this]
  have "py_int (polyval fall_coeff (real_of_int (ii + int (Suc k)))) < 99"
    by (intro py_int_less) simp_all
  with k show False by simp
qed

lemma fall_range: "aperture_range fall_apertures [''A''] = Inr (0, 4)"
  by (simp add: aperture_range_def fall_apertures_def)

lemma fall_inter:
  "find_inter_aper fall_apertures 100 10 (\<lambda>y. fall_image y x) x [''A''] 0 4
     = Inr [10, 30, 45, 54]"
  by (simp add: find_inter_aper_def upto04 fall_apertures_def fall_image_def scan_center_def
        clamp_row_def py_int_def upt_rec)

lemma fall_column:
  "column_rows fall_polyfit fall_apertures 100 10 (\<lambda>y. fall_image y x) x [''A''] 0 4 True = None"
proof -
  have "extend_up fall_coeff 100 3 54 [10, 30, 45, 54] = None"
    by (rule fall_walk_diverges) simp_all
  then show ?thesis
    by (simp add: column_rows_def fall_inter extend_grid_def fall_polyfit_def)
qed

lemma scan_columns_2_10: "scan_columns 2 10 = Inr [0, 1]"
  by (simp add: scan_columns_def)

lemma dip_inter:
  "find_inter_aper dip_apertures 100 4 (\<lambda>y. dip_image y x) x [''A''] 0 4
     = Inr [10, 68, 91, 93]"
  by (simp add: find_inter_aper_def upto04 dip_apertures_def dip_image_def scan_center_def
        clamp_row_def py_int_def upt_rec)

lemma dip_up: "extend_up dip_coeff 100 3 93 [10, 68, 91, 93] = Some [10, 68, 91, 93, 88, 90, 113]"
  by (simp add: extend_up.simps polyval_def py_int_def dip_coeff_def)

lemma dip_down:
  "extend_down dip_coeff 0 10 [10, 68, 91, 93, 88, 90, 113]
     = Some [- 97, 10, 68, 91, 93, 88, 90, 113]"
  by (simp add: extend_down.simps polyval_def py_int_def dip_coeff_def)


lemma column_rows_no_extend:
  "column_rows polyfit apertureset_lst h scan_step xsection x channels min_aper max_aper False
     \<noteq> None"
  by (simp add: column_rows_def split: sum.splits)

lemma sample_columns_no_extend:
  "sample_columns polyfit apertureset_lst h scan_step meddata data_mask channels min_aper
     max_aper False x_lst nodes \<noteq> None"
proof (induction x_lst arbitrary: nodes)
  case Nil
  then show ?case by simp
next
  case (Cons x x_lst)
  obtain xn yn zn where n: "nodes = (xn, yn, zn)" by (cases nodes) auto
  show ?case
  proof (cases "column_rows polyfit apertureset_lst h scan_step (\<lambda>y. meddata y x) x channels
                  min_aper max_aper False")
    case None
    with column_rows_no_extend show ?thesis by blast
  next
    case (Some res)
    then show ?thesis
      using Cons.IH unfolding n by (cases res) (simp_all add: Let_def)
  qed
qed

lemma correct_background_no_extend:
  "correct_background median_filter polyfit pf pv griddata shape data msk channels
       apertureset_lst method scale block_mask scan_step xorder yorder maxiter upper_clip
       lower_clip False display fig_file reg_file \<noteq> None"
proof -
  have "sample_nodes median_filter polyfit shape data msk channels apertureset_lst
          block_mask scan_step False \<noteq> None"
    using sample_columns_no_extend
    by (auto simp: sample_nodes_def Let_def split: prod.splits sum.splits)
  then show ?thesis
    by (auto simp: correct_background_def split: option.splits sum.splits)
qed

subsection \<open>Claims about the node sampler and \<^verbatim>\<open>correct_background\<close>\<close>

text \<open>
  C1 as stated fails. On a frame of height 100 whose first column has the node rows
  10, 30, 45 and 54, the cubic through these rows falls after index 3 and never reaches
  row 99: the upward walk has no end, and the call with \<^verbatim>\<open>extend=True\<close> does not
  return.
\<close>

theorem extension_walk_diverges_counterexample:
  "correct_background (\<lambda>d. d) fall_polyfit polyfit2d_const polyval2d_const no_griddata
      (100, 2) fall_image ex_mask [''A''] fall_apertures ''poly'' ''linear'' 4 10 2 2 5 3 3
      True True None None = None"
  by (simp add: correct_background_def sample_nodes_def fall_range scan_columns_2_10
        fall_column)


text \<open>
  C1, amended. The sigma-clipping loop of \<^verbatim>\<open>fit_background\<close> runs at most \<open>maxiter\<close>
  passes for every input, and with \<^verbatim>\<open>extend=False\<close> \<^verbatim>\<open>correct_background\<close> always
  returns or raises. An upward extension walk ends exactly when the last node row is
  already at least \<open>h - 1\<close> or the truncated prediction \<^verbatim>\<open>int(np.polyval(coeff, i))\<close>
  is at least \<open>h - 1\<close> at some index \<open>i\<close> after the last node; a downward walk ends
  exactly when the first row is at most 0 or the prediction is at most 0 at some index
  below 0.
\<close>

theorem walks_and_fit_loop_terminate:
  "(\<forall>bg m msgs. fit_background pf pv shape xnodes ynodes znodes xo yo maxiter u l
        = Inr (bg, m, msgs) \<longrightarrow> length msgs \<le> nat maxiter)
   \<and> ((\<exists>r. extend_up coeff h ii new_y inter_aper = Some r) \<longleftrightarrow>
        int h - 1 \<le> new_y
        \<or> (\<exists>k. int h - 1 \<le> py_int (polyval coeff (real_of_int (ii + int (Suc k))))))
   \<and> ((\<exists>r. extend_down coeff jj new_y' inter_aper' = Some r) \<longleftrightarrow>
        new_y' \<le> 0
        \<or> (\<exists>k. py_int (polyval coeff (real_of_int (jj - int (Suc k)))) \<le> 0))
   \<and> correct_background median_filter polyfit pf pv griddata shape' data msk channels
        apertureset_lst method scale block_mask scan_step xorder yorder maxiter' upper_clip
        lower_clip False display fig_file reg_file \<noteq> None"
proof (intro conjI allI impI iffI)
  fix bg m msgs
  assume "fit_background pf pv shape xnodes ynodes znodes xo yo maxiter u l = Inr (bg, m, msgs)"
  then obtain co xfit yfit where
    "fit_loop pf pv xfit yfit znodes xo yo u l (nat maxiter) 0 None
        (replicate (length znodes) True) [] = Inr (co, m, msgs)"
    by (auto simp: fit_background_def fit_background_from_def
          split: prod.splits sum.splits option.splits)
  from fit_loop_rounds[OF this] show "length msgs \<le> nat maxiter" by simp
next
  assume "\<exists>r. extend_up coeff h ii new_y inter_aper = Some r"
  then show "int h - 1 \<le> new_y
        \<or> (\<exists>k. int h - 1 \<le> py_int (polyval coeff (real_of_int (ii + int (Suc k)))))"
    using extend_up_reaches_only_if by blast
next
  assume "int h - 1 \<le> new_y
        \<or> (\<exists>k. int h - 1 \<le> py_int (polyval coeff (real_of_int (ii + int (Suc k)))))"
  then show "\<exists>r. extend_up coeff h ii new_y inter_aper = Some r"
  proof
    assume "int h - 1 \<le> new_y"
    then show ?thesis by (subst extend_up.simps) simp
  next
    assume "\<exists>k. int h - 1 \<le> py_int (polyval coeff (real_of_int (ii + int (Suc k))))"
    then show ?thesis using extend_up_reaches_if by blast
  qed
next
  assume "\<exists>r. extend_down coeff jj new_y' inter_aper' = Some r"
  then show "new_y' \<le> 0
        \<or> (\<exists>k. py_int (polyval coeff (real_of_int (jj - int (Suc k)))) \<le> 0)"
    using extend_down_reaches_only_if by blast
next
  assume "new_y' \<le> 0
        \<or> (\<exists>k. py_int (polyval coeff (real_of_int (jj - int (Suc k)))) \<le> 0)"
  then show "\<exists>r. extend_down coeff jj new_y' inter_aper' = Some r"
  proof
    assume "new_y' \<le> 0"
    then show ?thesis by (subst extend_down.simps) simp
  next
    assume "\<exists>k. py_int (polyval coeff (real_of_int (jj - int (Suc k)))) \<le> 0"
    then show ?thesis using extend_down_reaches_if by blast
  qed
next
  show "correct_background median_filter polyfit pf pv griddata shape' data msk channels
        apertureset_lst method scale block_mask scan_step xorder yorder maxiter' upper_clip
        lower_clip False display fig_file reg_file \<noteq> None"
    by (rule correct_background_no_extend)
qed

theorem walks_and_fit_loop_terminate_witness:
  "(\<exists>r. extend_up dip_coeff 100 3 93 [10, 68, 91, 93] = Some r)
   \<and> (\<exists>r. extend_down dip_coeff 0 10 [10, 68, 91, 93] = Some r)
   \<and> length [(0::nat, 4::real, 6::nat, 2::nat), (1, 3, 2, 2)] \<le> nat 5"
proof -
  have up: "int 100 - 1 \<le> py_int (polyval dip_coeff (real_of_int (3 + int (Suc 2))))"
    by (simp add: polyval_def dip_coeff_def py_int_def)
  have down: "py_int (polyval dip_coeff (real_of_int (0 - int (Suc 0)))) \<le> 0"
    by (simp add: polyval_def dip_coeff_def py_int_def)
  have u: "(\<exists>r. extend_up dip_coeff 100 3 93 [10, 68, 91, 93] = Some r) \<longleftrightarrow>
        int 100 - 1 \<le> 93
        \<or> (\<exists>k. int 100 - 1 \<le> py_int (polyval dip_coeff (real_of_int (3 + int (Suc k)))))"
    by (rule walks_and_fit_loop_terminate[THEN conjunct2, THEN conjunct1])
  have d: "(\<exists>r. extend_down dip_coeff 0 10 [10, 68, 91, 93] = Some r) \<longleftrightarrow>
        10 \<le> (0::int)
        \<or> (\<exists>k. py_int (polyval dip_coeff (real_of_int (0 - int (Suc k)))) \<le> 0)"
    by (rule walks_and_fit_loop_terminate[THEN conjunct2, THEN conjunct2, THEN conjunct1])
  have f: "\<forall>bg m msgs. fit_background polyfit2d_const polyval2d_const (1, 1)
        [0, 0, 0, 0, 0, 0] [0, 0, 0, 0, 0, 0] [0, 1, 1, 3, 9, 10] 0 0 5 (7/5) (1/2)
        = Inr (bg, m, msgs) \<longrightarrow> length msgs \<le> nat 5"
    by (rule walks_and_fit_loop_terminate[THEN conjunct1])
  from f have "length [(0::nat, 4::real, 6::nat, 2::nat), (1, 3, 2, 2)] \<le> nat 5"
    unfolding run_two_rounds by blast
  with u d up down show ?thesis by blast
qed


text \<open>
  C4 fails on the code. In the column below the scan finds the rows 10, 68, 91, 93; the
  cubic through them (the first conjunct shows that it fits them exactly) continues
  with 88, 90, 113 upwards and with -97 downwards. Removing the rows outside the frame
  and then the rows that do not exceed their predecessor leaves 10, 68, 91, 93, 90:
  row 88 is dropped, row 90 exceeds 88 and stays, behind row 93.
\<close>

theorem backward_rows_remain:
  "map (\<lambda>i. polyval dip_coeff (real i)) [0, 1, 2, 3] = [10, 68, 91, 93]
   \<and> column_rows dip_polyfit dip_apertures 100 4 (\<lambda>y. dip_image y 0) 0 [''A''] 0 4 True
       = Some (Inr [10, 68, 91, 93, 90])"
proof -
  have a: "map (\<lambda>i. polyval dip_coeff (real i)) [0, 1, 2, 3] = [10, 68, 91, 93]"
    by (simp add: polyval_def dip_coeff_def)
  have b: "column_rows dip_polyfit dip_apertures 100 4 (\<lambda>y. dip_image y 0) 0 [''A''] 0 4 True
       = Some (Inr [10, 68, 91, 93, 90])"
    by (simp add: column_rows_def dip_inter extend_grid_def dip_polyfit_def dip_up dip_down
          remove_outside_def remove_backward_def)
  from a b show ?thesis by simp
qed


text \<open>
  C5 fails on the code. For a method other than \<^verbatim>\<open>'poly'\<close> and \<^verbatim>\<open>'interp'\<close> no call
  returns a value: either an earlier step raises, or the message
  \<^verbatim>\<open>Unknown method: ...\<close> is printed and the next use of \<^verbatim>\<open>background_data\<close> or
  \<^verbatim>\<open>fitmask\<close>, which were never bound, raises NameError out of
  \<^verbatim>\<open>correct_background\<close>.
\<close>

theorem unknown_method_raises:
  assumes "method \<noteq> ''poly''" and "method \<noteq> ''interp''"
    and "correct_background median_filter polyfit pf pv griddata shape data msk channels
       apertureset_lst method scale block_mask scan_step xorder yorder maxiter upper_clip
       lower_clip extend display fig_file reg_file = Some (evs, r)"
  shows "(\<exists>e. r = Inl e)
       \<and> (evs = [] \<or> evs = [Print (''Unknown method: '' @ method)] \<and> r = Inl NameError)"
proof (cases "sample_nodes median_filter polyfit shape data msk channels apertureset_lst
             block_mask scan_step extend")
  case None
  with assms(3) show ?thesis by (simp add: correct_background_def)
next
  case (Some s)
  show ?thesis
  proof (cases s)
    case (Inl e)
    with Some assms(3) show ?thesis by (auto simp: correct_background_def)
  next
    case (Inr nodes)
    obtain xnodes ynodes znodes0 where n: "nodes = (xnodes, ynodes, znodes0)"
      by (cases nodes) auto
    from Some Inr assms(3) have f: "fit_nodes pf pv griddata shape method scale xorder yorder
        maxiter upper_clip lower_clip display fig_file reg_file nodes = (evs, r)"
      by (simp add: correct_background_def)
    show ?thesis
    proof (cases "if scale = ''log'' then log_scale znodes0 else Inr znodes0")
      case (Inl e)
      with f show ?thesis unfolding n fit_nodes_def by (auto simp: Let_def)
    next
      case (Inr znodes)
      with f assms(1,2) show ?thesis unfolding n fit_nodes_def by (auto simp: Let_def)
    qed
  qed
qed

theorem unknown_method_raises_witness:
  "correct_background (\<lambda>d. d) no_polyfit polyfit2d_const polyval2d_const no_griddata (18, 2)
      ex_image ex_mask [''A''] ex_apertures ''spline'' ''linear'' 4 1 0 0 5 3 3 False True
      None None
     = Some ([Print ''Unknown method: spline''], Inl NameError)
   \<and> (\<exists>e. (Inl NameError :: py_error + real list list option) = Inl e)"
proof -
  have a: "''spline'' \<noteq> ''poly''" and b: "''spline'' \<noteq> ''interp''" by simp_all
  from unknown_method_raises[OF a b ex_run_unknown] ex_run_unknown show ?thesis by blast
qed




text \<open>
  C8 as stated fails. The two fibers are centred at rows 10 and 50 in the same
  aperture; the centres are met one after the other and nothing was recorded before,
  yet the pair records no candidate: the second centre is not the first channel of its
  aperture.
\<close>

theorem same_aperture_pair_counterexample:
  "scan_center 100 1 (\<lambda>y. fall_image y 0) 2 50 (Some 10, []) = (Some 50, [])
   \<and> find_inter_aper pair_apertures 100 1 (\<lambda>y. fall_image y 0) 0 [''A'', ''B''] 0 0 = Inr []"
  by (simp add: scan_center_def find_inter_aper_def pair_apertures_def upto.simps)


text \<open>
  C8, amended. At a scanned column, a centre met after a previous one records a
  candidate exactly when it is the first channel found at its aperture, the truncated
  geometric midpoint of the two centres is more than \<open>0.6 * scan_step\<close> away from the
  last recorded row of the column (or nothing is recorded yet), and the clamped
  integer rows of the two centres satisfy \<open>i1 < i2\<close>. The candidate is then the first
  row of minimum intensity among the rows \<open>i1 \<le> y < i2\<close> between the two centres;
  otherwise nothing is recorded.
\<close>

theorem scan_center_records:
  fixes h :: nat and scan_step :: int and prev this_newy :: real
  defines "mid \<equiv> py_int ((prev + this_newy) / 2)"
    and "i1 \<equiv> clamp_row h prev" and "i2 \<equiv> clamp_row h this_newy"
  shows "\<exists>inter_aper'.
      scan_center h scan_step xsection count_channel this_newy (Some prev, inter_aper)
        = (Some this_newy, inter_aper')
    \<and> (if count_channel = 1
          \<and> (inter_aper = [] \<or> \<bar>real_of_int (mid - last inter_aper)\<bar> > real_of_int scan_step * 0.6)
          \<and> i1 < i2
        then \<exists>r. inter_aper' = inter_aper @ [r] \<and> i1 \<le> r \<and> r < i2
               \<and> (\<forall>y. i1 \<le> y \<and> y < i2 \<longrightarrow> xsection (nat r) \<le> xsection (nat y))
               \<and> (\<forall>y. i1 \<le> y \<and> y < r \<longrightarrow> xsection (nat r) < xsection (nat y))
        else inter_aper' = inter_aper)"
proof (cases "count_channel = 1
          \<and> (inter_aper = [] \<or> \<bar>real_of_int (mid - last inter_aper)\<bar> > real_of_int scan_step * 0.6)
          \<and> i1 < i2")
  case False
  then show ?thesis
    by (auto simp: scan_center_def Let_def mid_def i1_def i2_def)
next
  case True
  have i1_nonneg: "0 \<le> i1"
  proof -
    from True have "i1 < i2" by simp
    moreover have "i2 \<le> int h - 1" by (simp add: i2_def clamp_row_def)
    ultimately have "i1 < int h - 1" by linarith
    then show ?thesis by (simp add: i1_def clamp_row_def min_def max_def split: if_splits)
  qed
  with True have n: "nat i1 < nat i2" by simp
  define r where "r = i1 + int (argmin (map xsection [nat i1..<nat i2]))"
  from slice_argmin[OF n, of xsection] have
    s: "nat i1 \<le> nat i1 + argmin (map xsection [nat i1..<nat i2])"
       "nat i1 + argmin (map xsection [nat i1..<nat i2]) < nat i2"
       "\<forall>y. nat i1 \<le> y \<and> y < nat i2 \<longrightarrow>
           xsection (nat i1 + argmin (map xsection [nat i1..<nat i2])) \<le> xsection y"
       "\<forall>y. nat i1 \<le> y \<and> y < nat i1 + argmin (map xsection [nat i1..<nat i2]) \<longrightarrow>
           xsection (nat i1 + argmin (map xsection [nat i1..<nat i2])) < xsection y"
    by blast+
  have nr: "nat r = nat i1 + argmin (map xsection [nat i1..<nat i2])"
    using i1_nonneg by (simp add: r_def nat_add_distrib)
  have r1: "i1 \<le> r" by (simp add: r_def)
  have r2: "r < i2" using s(2) i1_nonneg unfolding r_def by linarith
  have r3: "xsection (nat r) \<le> xsection (nat y)" if "i1 \<le> y" "y < i2" for y
  proof -
    from that i1_nonneg have "nat i1 \<le> nat y \<and> nat y < nat i2" by auto
    with s(3) show ?thesis unfolding nr by blast
  qed
  have r4: "xsection (nat r) < xsection (nat y)" if "i1 \<le> y" "y < r" for y
  proof -
    from that i1_nonneg have "nat i1 \<le> nat y \<and> nat y < nat r" by auto
    with s(4) show ?thesis unfolding nr by blast
  qed
  have sc: "scan_center h scan_step xsection count_channel this_newy (Some prev, inter_aper)
        = (Some this_newy, inter_aper @ [r])"
    using True by (auto simp: scan_center_def Let_def mid_def i1_def i2_def r_def)
  show ?thesis
    using True sc r1 r2 r3 r4 by auto
qed

theorem scan_center_records_witness:
  "\<exists>r. scan_center 18 1 (\<lambda>y. ex_image y 0) 1 4 (Some 1, []) = (Some 4, [r])
       \<and> 1 \<le> r \<and> r < 4"
  using scan_center_records[where h = 18 and scan_step = 1 and xsection = "\<lambda>y. ex_image y 0"
      and count_channel = 1 and this_newy = 4 and prev = 1 and inter_aper = "[]"]
  by (auto simp: clamp_row_def py_int_def)


text \<open>
  C10. \<^verbatim>\<open>correct_background\<close> never writes the DS9 region file, whatever
  \<^verbatim>\<open>reg_file\<close> is: the body returns \<^verbatim>\<open>background_data\<close> before the block that writes
  it, so no run produces a region-file event, and no run ends by falling through that
  block.
\<close>

theorem region_file_never_written:
  assumes "correct_background median_filter polyfit pf pv griddata shape data msk channels
       apertureset_lst method scale block_mask scan_step xorder yorder maxiter upper_clip
       lower_clip extend display fig_file reg_file = Some (evs, r)"
  shows "(\<forall>name pts. WriteRegion name pts \<notin> set evs) \<and> r \<noteq> Inr None"
proof (cases "sample_nodes median_filter polyfit shape data msk channels apertureset_lst
             block_mask scan_step extend")
  case None
  with assms show ?thesis by (simp add: correct_background_def)
next
  case (Some s)
  show ?thesis
  proof (cases s)
    case (Inl e)
    with Some assms show ?thesis by (auto simp: correct_background_def)
  next
    case (Inr nodes)
    with Some assms have "fit_nodes pf pv griddata shape method scale xorder yorder maxiter
        upper_clip lower_clip display fig_file reg_file nodes = (evs, r)"
      by (simp add: correct_background_def)
    then show ?thesis by (rule fit_nodes_events)
  qed
qed

theorem region_file_never_written_witness:
  "correct_background (\<lambda>d. d) no_polyfit polyfit2d_const polyval2d_const no_griddata (18, 2)
      ex_image ex_mask [''A''] ex_apertures ''poly'' ''log'' 4 1 0 0 5 3 3 False True
      (Some ''bkg.png'') (Some ''nodes.reg'')
   = Some ([SaveFig ''bkg.png''], Inr (Some ex_surface))
   \<and> (\<forall>name pts. WriteRegion name pts \<notin> set [SaveFig ''bkg.png''])
   \<and> (Inr (Some ex_surface) :: py_error + real list list option) \<noteq> Inr None"
  using region_file_never_written[OF ex_run_log] ex_run_log by blast


section \<open>Properties of the background selection\<close>

lemma select_backgrounds_none:
  assumes "(ifiber, objname) \<in> set fiberobj_lst"
    and "find_best (fiber_name ifiber) objname (object_type objname) = None"
    and "from_database (fiber_name ifiber) objname (object_type objname) = None"
  shows "\<exists>evs'. select_backgrounds find_best from_database brightness_scale bkg_data bkg_fileid
            fmt screen_prefix fiberobj_lst background evs = (evs', Inl AttributeError)
          \<and> Print (screen_prefix @ ''Error: No background found in the database'') \<in> set evs'"
  using assms(1)
proof (induction fiberobj_lst arbitrary: background evs)
  case Nil
  then show ?case by simp
next
  case (Cons p rest)
  obtain i' o' where p: "p = (i', o')" by (cases p)
  show ?case
  proof (cases "case find_best (fiber_name i') o' (object_type o') of
               None \<Rightarrow> from_database (fiber_name i') o' (object_type o')
             | Some b \<Rightarrow> Some b")
    case None
    then show ?thesis unfolding p by (simp add: Let_def)
  next
    case (Some b)
    with assms(2,3) have "(ifiber, objname) \<noteq> (i', o')" by auto
    with Cons.prems p have "(ifiber, objname) \<in> set rest" by auto
    from Cons.IH[OF this] show ?thesis unfolding p using Some by (simp add: Let_def)
  qed
qed


text \<open>
  C6. When for some fiber of the frame neither the backgrounds of the same session
  nor the archive yield a background (both lookups return \<^verbatim>\<open>None\<close>), the background
  step of the frame fails: the error message is printed and the step raises
  (AttributeError, from \<^verbatim>\<open>selected_bkg.data\<close>); it never yields a frame, subtracted or
  not.
\<close>

theorem no_background_is_surfaced:
  assumes "(ifiber, objname) \<in> set fiberobj_lst"
    and "find_best (fiber_name ifiber) objname (object_type objname) = None"
    and "from_database (fiber_name ifiber) objname (object_type objname) = None"
  shows "\<exists>evs. background_step find_best from_database brightness_scale bkg_data bkg_fileid
            fmt screen_prefix fiberobj_lst data = (evs, Inl AttributeError)
          \<and> Print (screen_prefix @ ''Error: No background found in the database'') \<in> set evs"
proof -
  from select_backgrounds_none[where find_best = find_best and from_database = from_database
      and brightness_scale = brightness_scale and bkg_data = bkg_data
      and bkg_fileid = bkg_fileid and fmt = fmt and screen_prefix = screen_prefix
      and background = "\<lambda>y x. 0" and evs = "[]", OF assms]
  obtain evs' where "select_backgrounds find_best from_database brightness_scale bkg_data
      bkg_fileid fmt screen_prefix fiberobj_lst (\<lambda>y x. 0) [] = (evs', Inl AttributeError)"
    and "Print (screen_prefix @ ''Error: No background found in the database'') \<in> set evs'"
    by blast
  then show ?thesis by (simp add: background_step_def)
qed

theorem no_background_is_surfaced_witness:
  "\<exists>evs. background_step ex_find_best ex_from_database (\<lambda>fiber b. 2) (\<lambda>b y x. real b)
            (\<lambda>b. ''bkg'') (\<lambda>s. ''2.000'') ''  '' [(0, ''Star''), (1, ''comb'')] (\<lambda>y x. 100)
            = (evs, Inl AttributeError)
          \<and> Print (''  '' @ ''Error: No background found in the database'') \<in> set evs"
proof -
  have a: "((1::nat), ''comb'') \<in> set [(0, ''Star''), (1, ''comb'')]" by simp
  have b: "ex_find_best (fiber_name 1) ''comb'' (object_type ''comb'') = None"
    unfolding fiber_name_1 by (simp add: ex_find_best_def)
  have c: "ex_from_database (fiber_name 1) ''comb'' (object_type ''comb'') = None"
    by (simp add: ex_from_database_def)
  show ?thesis
    by (rule no_background_is_surfaced[where find_best = ex_find_best
          and from_database = ex_from_database, OF a b c])
qed


end
